theory Spec2Isabelle
  imports Complex_Main "HOL-Library.Sublist" "HOL-Library.AList"
begin

section \<open>Overview\<close>

text \<open>
  A model of the download module of tidal-dl-ng: manifest parsing
  (\<open>stream_manifest_parse\<close>, \<open>_extract_video_stream\<close>, \<open>get_file_extension\<close>,
  \<open>is_encrypted\<close>), the segmented download (\<open>_download\<close>) and the single-item
  operation (\<open>item\<close>, \<open>instantiate_media\<close>). Exceptions are values of a sum type.
  Effects are explicit: every function that sends a request, writes a file, logs or
  advances a progress task takes the world and returns the new one, also when it
  raises. The libraries and helpers the module calls are parameters, collected in one
  record. The signals sent to a graphical progress display change nothing that the
  module reads back and are left out.
\<close>

section \<open>Python strings\<close>

text \<open>
  Python's \<open>sub in s\<close> on strings: \<open>sub\<close> occurs in \<open>s\<close> as a contiguous block.
\<close>

fun str_in :: "string \<Rightarrow> string \<Rightarrow> bool" where
  "str_in sub [] = (sub = [])"
| "str_in sub (c # cs) = (prefix sub (c # cs) \<or> str_in sub cs)"

text \<open>Python's \<open>str(n)\<close> for a non-negative integer: its decimal digits.\<close>

definition digit :: "nat \<Rightarrow> char" where
  "digit d = ''0123456789'' ! d"

function str_nat :: "nat \<Rightarrow> string" where
  "str_nat n = (if n < 10 then [digit n] else str_nat (n div 10) @ [digit (n mod 10)])"
  by pat_completeness auto
termination
  by (relation "measure id") auto

declare str_nat.simps [simp del]

text \<open>
  Python's \<open>s.replace(old, new)\<close>: every occurrence of \<open>old\<close>, found from the left
  and without overlap, is replaced. For an empty \<open>old\<close> Python puts \<open>new\<close> before every
  character and at the end.
\<close>

function replace_scan :: "string \<Rightarrow> string \<Rightarrow> string \<Rightarrow> string" where
  "replace_scan old new [] = []"
| "replace_scan old new (c # cs) =
     (if prefix old (c # cs) then new @ replace_scan old new (drop (length old - 1) cs)
      else c # replace_scan old new cs)"
  by pat_completeness auto
termination
  by (relation "measure (\<lambda>(old, new, s). length s)") auto

definition str_replace :: "string \<Rightarrow> string \<Rightarrow> string \<Rightarrow> string" where
  "str_replace old new s =
     (if old = [] then new @ concat (map (\<lambda>c. c # new) s) else replace_scan old new s)"

section \<open>Exceptions\<close>

text \<open>
  The exceptions of the module. \<open>MediaMissing\<close>, \<open>MediaUnknown\<close> and
  \<open>UnknownManifestFormat\<close> are raised by the module itself; \<open>HTTPError\<close> is the
  exception of \<open>raise_for_status\<close>, the only one \<open>_download\<close> catches; \<open>IndexError\<close>,
  \<open>KeyError\<close>, \<open>AttributeError\<close> and \<open>TypeError\<close> are Python's own, raised by an index
  into an empty list, a missing dictionary key, an attribute read on \<open>False\<close> and an
  index into \<open>None\<close>. \<open>External\<close> is any exception raised inside a collaborator
  (decoder, session, transport other than a status error, file system, tagger).
\<close>

datatype error =
    MediaMissing
  | MediaUnknown
  | UnknownManifestFormat
  | HTTPError
  | IndexError
  | KeyError
  | AttributeError
  | TypeError
  | External string

definition first :: "'a list \<Rightarrow> error + 'a" where
  "first xs = (case xs of [] \<Rightarrow> Inl IndexError | x # _ \<Rightarrow> Inr x)"

section \<open>The unified manifest\<close>

record StreamManifest =
  urls :: "string list"
  codecs :: string
  file_extension :: string
  encryption_type :: string
  encryption_key :: "string option"
  mime_type :: string

definition is_encrypted :: "string \<Rightarrow> bool" where
  "is_encrypted enc_type = (enc_type \<noteq> ''NONE'')"

definition get_file_extension :: "string \<Rightarrow> string \<Rightarrow> string" where
  "get_file_extension stream_url stream_codec =
     (if str_in ''.flac'' stream_url then ''.flac''
      else if str_in ''.mp4'' stream_url then ''.mp4''
      else if str_in ''.ts'' stream_url then ''.ts''
      else ''.m4a'')"

section \<open>The adaptive-streaming manifest\<close>

text \<open>
  The object tree of the parsed manifest, as far as \<open>stream_manifest_parse\<close> reads it.
  The repeat count \<open>r\<close> of a timeline entry is an integer or \<open>None\<close>.
\<close>

record S =
  r :: "int option"

record SegmentTimeline =
  Ss :: "S list"

record SegmentTemplate =
  media :: string
  segment_timelines :: "SegmentTimeline list"

record Representation =
  rep_codecs :: string
  segment_templates :: "SegmentTemplate list"

record AdaptationSet =
  as_mime_type :: string
  representations :: "Representation list"

record Period =
  adaptation_sets :: "AdaptationSet list"

record MPEGDASH =
  periods :: "Period list"

text \<open>The loop \<open>segments_count += s.r if s.r else 1\<close>; \<open>None\<close> and \<open>0\<close> are falsy.\<close>

fun count_segments :: "S list \<Rightarrow> int \<Rightarrow> int" where
  "count_segments [] segments_count = segments_count"
| "count_segments (s # ss) segments_count =
     count_segments ss
       (segments_count + (case r s of None \<Rightarrow> 1 | Some k \<Rightarrow> if k \<noteq> 0 then k else 1))"

text \<open>Python's \<open>range(n)\<close>: empty for \<open>n \<le> 0\<close>.\<close>

definition py_range :: "int \<Rightarrow> nat list" where
  "py_range n = [0 ..< nat n]"

text \<open>The loop that appends one URL per index to \<open>stream_urls\<close>.\<close>

fun populate_urls :: "string \<Rightarrow> nat list \<Rightarrow> string list \<Rightarrow> string list" where
  "populate_urls pattern [] stream_urls = stream_urls"
| "populate_urls pattern (index # rest) stream_urls =
     populate_urls pattern rest
       (stream_urls @ [str_replace ''$Number$'' (str_nat index) pattern])"

section \<open>The proprietary JSON envelope\<close>

text \<open>
  The decoded JSON object, typed as the module declares what it reads from it:
  \<open>urls\<close> a list of strings, \<open>codecs\<close>, \<open>mimeType\<close> and \<open>encryptionType\<close> strings,
  and \<open>encryptionKey\<close> a string or \<open>None\<close> (\<open>str | None\<close>), which is what the decoder
  makes of a JSON \<open>null\<close>. A field is \<open>None\<close> when the object has no such key, so that
  reading it raises \<open>KeyError\<close>; for the key, \<open>Some None\<close> is a key that is present
  with the value \<open>null\<close>.
\<close>

record BtsManifest =
  j_urls :: "string list option"
  j_codecs :: "string option"
  mimeType :: "string option"
  encryptionType :: "string option"
  encryptionKey :: "string option option"

definition getitem :: "'a option \<Rightarrow> error + 'a" where
  "getitem field = (case field of None \<Rightarrow> Inl KeyError | Some v \<Rightarrow> Inr v)"

section \<open>Playlists\<close>

text \<open>
  A loaded playlist object: \<open>is_variant\<close>, the renditions of a multivariant playlist
  (each with its URI, its resolution as a pair of width and height, or \<open>None\<close>, and its
  codecs), and the segment files of a media playlist.
\<close>

record StreamInfo =
  resolution :: "(nat \<times> nat) option"
  si_codecs :: string

record PlaylistEntry =
  uri :: string
  stream_info :: StreamInfo

record M3U8 =
  is_variant :: bool
  playlists :: "PlaylistEntry list"
  files :: "string list"

section \<open>Media, settings and collaborators\<close>

datatype media = Track string | Video string | Album string | Playlist string | Mix string

text \<open>
  The media type tag. \<open>OTHER\<close> stands for any value that is none of the five the
  module compares against.
\<close>

datatype MediaType = TRACK | VIDEO | ALBUM | PLAYLIST | MIX | OTHER string

text \<open>
  Modelled from the spec: the enumeration \<open>SkipExisting\<close> is declared outside this
  module. \<open>Disabled\<close> has a falsy value; a configured policy has a truthy one and either
  compares the whole path or ignores the extension.
\<close>

datatype SkipExisting = Disabled | Filename | ExtensionIgnore

definition skip_value :: "SkipExisting \<Rightarrow> bool" where
  "skip_value s = (s \<noteq> Disabled)"

text \<open>An answer to \<open>requests.get\<close>: whether the status is a success, the
  \<open>content-length\<close> header if present, the pieces \<open>iter_content\<close> yields, and whether
  the connection breaks after them (then \<open>iter_content\<close> raises).\<close>

record Response =
  status_ok :: bool
  content_length :: "int option"
  chunks :: "string list"
  broken :: bool

text \<open>
  What the module reads from its surroundings. The three manifest tags are the values
  of \<open>StreamManifestMimeType\<close>, declared outside this module; \<open>quality_video\<close> and
  \<open>video_convert_mp4\<close> are the two settings read here. The decoders stand for
  \<open>base64.b64decode\<close> followed by the parser; \<open>m3u8_fetch\<close> for what \<open>m3u8.load\<close>
  finds at a URI; \<open>stream\<close> and \<open>get_url\<close> for the session's answers about a media
  handle; \<open>http\<close> for the answer to a content request, given the number of requests
  sent before it; \<open>decrypt_file\<close>, \<open>metadata_save\<close> and \<open>ffmpeg_copy\<close> for the content
  the decryption helper, the tagger and the transcoder write, given the content of the
  file they read (\<open>None\<close> when there is no such file). A collaborator that raises
  returns \<open>Inl\<close> with the message. The path functions are those of \<open>os.path\<close> and of
  the path helpers; \<open>tmp_path_dir\<close> and \<open>uuid4\<close> are the fresh names the system
  hands out.
\<close>

record env =
  MPD_value :: string
  BTS_value :: string
  VIDEO_value :: string
  quality_video :: nat
  video_convert_mp4 :: bool
  b64_mpd :: "string \<Rightarrow> string + MPEGDASH"
  b64_json :: "string \<Rightarrow> string + BtsManifest"
  m3u8_fetch :: "string \<Rightarrow> string + M3U8"
  stream :: "media \<Rightarrow> string + string \<times> string"
  get_url :: "media \<Rightarrow> string + string"
  http :: "nat \<Rightarrow> string \<Rightarrow> string + Response"
  format_path_media :: "string \<Rightarrow> media \<Rightarrow> string"
  abspath_join :: "string \<Rightarrow> string \<Rightarrow> string"
  path_file_sanitize :: "string \<Rightarrow> string"
  splitext_root :: "string \<Rightarrow> string"
  tmp_path_dir :: string
  uuid4 :: string
  decrypt_security_token :: "string option \<Rightarrow> string + string \<times> string"
  decrypt_file :: "string option \<Rightarrow> string \<times> string \<Rightarrow> string + string"
  lyrics_save :: bool
  metadata_save :: "media \<Rightarrow> string option \<Rightarrow> string + string"
  ffmpeg_copy :: "string option \<Rightarrow> string + string"

section \<open>The world\<close>

text \<open>
  The effects of the module, made explicit: the requests sent so far, in order; the
  files on disk (path and content); the entries handed to the logger; and the tasks of
  the progress display.
\<close>

datatype event =
    Manifest_fetch media
  | Playlist_load string
  | Http_get string
  | Lyrics_fetch media

datatype log_entry =
    Video_skipped media
  | Download_skipped string
  | Exception_logged error

text \<open>
  A progress task of the display library: \<open>advance\<close> adds one to \<open>completed\<close> and
  marks the task finished once \<open>completed\<close> has reached \<open>total\<close>; a new task is not
  finished, whatever its total.
\<close>

record Task =
  total :: rat
  completed :: nat
  finished :: bool

record world =
  reqs :: "event list"
  fs :: "(string \<times> string) list"
  logs :: "log_entry list"
  tasks :: "Task list"

definition lift :: "string + 'a \<Rightarrow> error + 'a" where
  "lift x = (case x of Inl msg \<Rightarrow> Inl (External msg) | Inr v \<Rightarrow> Inr v)"

definition m3u8_load :: "env \<Rightarrow> string \<Rightarrow> world \<Rightarrow> (error + M3U8) \<times> world" where
  "m3u8_load E u w = (lift (m3u8_fetch E u), w\<lparr>reqs := reqs w @ [Playlist_load u]\<rparr>)"

section \<open>Manifest parsing\<close>

text \<open>
  The loop of \<open>_extract_video_stream\<close>, with its three variables \<open>m3u8_playlist\<close>
  (\<open>None\<close> for the initial \<open>False\<close>), \<open>resolution_best\<close> and \<open>mime_type\<close>. The
  \<open>break\<close> ends the recursion.
\<close>

fun extract_loop ::
  "env \<Rightarrow> nat \<Rightarrow> PlaylistEntry list \<Rightarrow> M3U8 option \<times> nat \<times> string \<Rightarrow> world
   \<Rightarrow> (error + M3U8 option \<times> nat \<times> string) \<times> world" where
  "extract_loop E quality [] acc w = (Inr acc, w)"
| "extract_loop E quality (playlist # rest) (m3u8_playlist, resolution_best, mt) w =
     (case resolution (stream_info playlist) of
        None \<Rightarrow> (Inl TypeError, w)
      | Some (width, height) \<Rightarrow>
          if resolution_best < height then
            (case m3u8_load E (uri playlist) w of
               (Inl e, w') \<Rightarrow> (Inl e, w')
             | (Inr loaded, w') \<Rightarrow>
                 if quality = height
                 then (Inr (Some loaded, height, si_codecs (stream_info playlist)), w')
                 else extract_loop E quality rest
                        (Some loaded, height, si_codecs (stream_info playlist)) w')
          else extract_loop E quality rest (m3u8_playlist, resolution_best, mt) w)"

definition extract_video_stream ::
  "env \<Rightarrow> M3U8 \<Rightarrow> nat \<Rightarrow> world \<Rightarrow> (error + M3U8 option \<times> string) \<times> world" where
  "extract_video_stream E m3u8_variant quality w =
     (if is_variant m3u8_variant then
        (case extract_loop E quality (playlists m3u8_variant) (None, 0, []) w of
           (Inl e, w') \<Rightarrow> (Inl e, w')
         | (Inr (m3u8_playlist, resolution_best, mt), w') \<Rightarrow> (Inr (m3u8_playlist, mt), w'))
      else (Inr (None, []), w))"

text \<open>
  The three branches of \<open>stream_manifest_parse\<close> each set \<open>stream_urls\<close>, \<open>codecs\<close>,
  \<open>mime_type\<close>, \<open>encryption_type\<close> and \<open>encryption_key\<close>.
\<close>

type_synonym fields = "string list \<times> string \<times> string \<times> string \<times> string option"

definition mpd_fields :: "MPEGDASH \<Rightarrow> error + fields" where
  "mpd_fields mpd =
     (case first (periods mpd) of Inl e \<Rightarrow> Inl e | Inr period \<Rightarrow>
      case first (adaptation_sets period) of Inl e \<Rightarrow> Inl e | Inr aset \<Rightarrow>
      case first (representations aset) of Inl e \<Rightarrow> Inl e | Inr rep \<Rightarrow>
      case first (segment_templates rep) of Inl e \<Rightarrow> Inl e | Inr segment_template \<Rightarrow>
      case first (segment_timelines segment_template) of Inl e \<Rightarrow> Inl e | Inr timeline \<Rightarrow>
        let segments_count = count_segments (Ss timeline) (1 + 1);
            stream_urls = populate_urls (media segment_template) (py_range segments_count) []
        in Inr (stream_urls, rep_codecs rep, as_mime_type aset, ''NONE'', None))"

definition bts_fields :: "BtsManifest \<Rightarrow> error + fields" where
  "bts_fields stream_manifest =
     (case getitem (j_urls stream_manifest) of Inl e \<Rightarrow> Inl e | Inr stream_urls \<Rightarrow>
      case getitem (j_codecs stream_manifest) of Inl e \<Rightarrow> Inl e | Inr cs \<Rightarrow>
      case getitem (mimeType stream_manifest) of Inl e \<Rightarrow> Inl e | Inr mt \<Rightarrow>
      case getitem (encryptionType stream_manifest) of Inl e \<Rightarrow> Inl e | Inr enc_type \<Rightarrow>
        if is_encrypted enc_type then
          (case getitem (encryptionKey stream_manifest) of Inl e \<Rightarrow> Inl e
           | Inr key \<Rightarrow> Inr (stream_urls, cs, mt, enc_type, key))
        else Inr (stream_urls, cs, mt, enc_type, None))"

definition video_fields :: "env \<Rightarrow> string \<Rightarrow> string \<Rightarrow> world \<Rightarrow> (error + fields) \<times> world" where
  "video_fields E manifest mt w =
     (case m3u8_load E manifest w of
        (Inl e, w') \<Rightarrow> (Inl e, w')
      | (Inr m3u8_variant, w') \<Rightarrow>
          (case extract_video_stream E m3u8_variant (quality_video E) w' of
             (Inl e, w'') \<Rightarrow> (Inl e, w'')
           | (Inr (None, cs), w'') \<Rightarrow> (Inl AttributeError, w'')
           | (Inr (Some m3u8_playlist, cs), w'') \<Rightarrow>
               (Inr (files m3u8_playlist, cs, mt, ''NONE'', None), w'')))"

text \<open>The common last step: the extension from the first URL, then the manifest.\<close>

definition build_manifest :: "fields \<Rightarrow> error + StreamManifest" where
  "build_manifest f =
     (case f of (stream_urls, cs, mt, enc_type, enc_key) \<Rightarrow>
        (case first stream_urls of
           Inl e \<Rightarrow> Inl e
         | Inr url0 \<Rightarrow>
             Inr \<lparr>urls = stream_urls, codecs = cs,
                  file_extension = get_file_extension url0 cs,
                  encryption_type = enc_type, encryption_key = enc_key,
                  mime_type = mt\<rparr>))"

definition stream_manifest_parse ::
  "env \<Rightarrow> string \<Rightarrow> string \<Rightarrow> world \<Rightarrow> (error + StreamManifest) \<times> world" where
  "stream_manifest_parse E manifest mt w =
     (if mt = MPD_value E then
        (case lift (b64_mpd E manifest) of
           Inl e \<Rightarrow> (Inl e, w)
         | Inr mpd \<Rightarrow>
             (case mpd_fields mpd of Inl e \<Rightarrow> (Inl e, w) | Inr f \<Rightarrow> (build_manifest f, w)))
      else if mt = BTS_value E then
        (case lift (b64_json E manifest) of
           Inl e \<Rightarrow> (Inl e, w)
         | Inr stream_manifest \<Rightarrow>
             (case bts_fields stream_manifest of
                Inl e \<Rightarrow> (Inl e, w) | Inr f \<Rightarrow> (build_manifest f, w)))
      else if mt = VIDEO_value E then
        (case video_fields E manifest mt w of
           (Inl e, w') \<Rightarrow> (Inl e, w')
         | (Inr f, w') \<Rightarrow> (build_manifest f, w'))
      else (Inl UnknownManifestFormat, w))"

section \<open>Files and progress\<close>

definition open_wb :: "string \<Rightarrow> world \<Rightarrow> world" where
  "open_wb path w = w\<lparr>fs := AList.update path [] (fs w)\<rparr>"

definition f_write :: "string \<Rightarrow> string \<Rightarrow> world \<Rightarrow> world" where
  "f_write path data w =
     w\<lparr>fs := AList.update path
             ((case map_of (fs w) path of None \<Rightarrow> [] | Some c \<Rightarrow> c) @ data) (fs w)\<rparr>"

definition add_task :: "rat \<Rightarrow> world \<Rightarrow> nat \<times> world" where
  "add_task t w =
     (length (tasks w), w\<lparr>tasks := tasks w @ [\<lparr>total = t, completed = 0, finished = False\<rparr>]\<rparr>)"

definition advance_task :: "Task \<Rightarrow> Task" where
  "advance_task t =
     t\<lparr>completed := completed t + 1,
       finished := finished t \<or> total t \<le> of_nat (completed t + 1)\<rparr>"

definition advance :: "nat \<Rightarrow> world \<Rightarrow> world" where
  "advance p_task w = w\<lparr>tasks := (tasks w)[p_task := advance_task (tasks w ! p_task)]\<rparr>"

definition task_finished :: "nat \<Rightarrow> world \<Rightarrow> bool" where
  "task_finished p_task w = finished (tasks w ! p_task)"

text \<open>\<open>os.path.join\<close> of a directory and a relative name.\<close>

definition path_join :: "string \<Rightarrow> string \<Rightarrow> string" where
  "path_join d name = d @ ''/'' @ name"

text \<open>\<open>shutil.move\<close> of a file: the destination gets the content, the source is gone.\<close>

definition shutil_move :: "string \<Rightarrow> string \<Rightarrow> world \<Rightarrow> (error + unit) \<times> world" where
  "shutil_move src dst w =
     (case map_of (fs w) src of
        None \<Rightarrow> (Inl (External ''FileNotFoundError''), w)
      | Some c \<Rightarrow> (Inr (), w\<lparr>fs := AList.update dst c (AList.delete src (fs w))\<rparr>))"

text \<open>Leaving the \<open>TemporaryDirectory\<close> block removes the directory and all in it.\<close>

definition cleanup :: "env \<Rightarrow> world \<Rightarrow> world" where
  "cleanup E w = w\<lparr>fs := filter (\<lambda>(p, c). \<not> prefix (tmp_path_dir E @ ''/'') p) (fs w)\<rparr>"

text \<open>
  Modelled from the spec: \<open>check_file_exists\<close> is a path helper outside this module.
  It checks for an existing file at the path, optionally ignoring the extension.
\<close>

definition check_file_exists :: "env \<Rightarrow> (string \<times> string) list \<Rightarrow> string \<Rightarrow> bool \<Rightarrow> bool" where
  "check_file_exists E files_on_disk path_file extension_ignore =
     (if extension_ignore
      then list_ex (\<lambda>p. splitext_root E p = splitext_root E path_file) (map fst files_on_disk)
      else map_of files_on_disk path_file \<noteq> None)"

section \<open>The segmented download\<close>

definition requests_get :: "env \<Rightarrow> string \<Rightarrow> world \<Rightarrow> (error + Response) \<times> world" where
  "requests_get E url w = (lift (http E (length (reqs w)) url), w\<lparr>reqs := reqs w @ [Http_get url]\<rparr>)"

text \<open>The innermost loop: write a piece, advance the task.\<close>

fun write_chunks :: "nat \<Rightarrow> string \<Rightarrow> string list \<Rightarrow> world \<Rightarrow> world" where
  "write_chunks p_task path_file [] w = w"
| "write_chunks p_task path_file (data # rest) w =
     write_chunks p_task path_file rest (advance p_task (f_write path_file data w))"

text \<open>
  The loop over the URLs. \<open>requests.get\<close> may raise, \<open>raise_for_status\<close> raises
  \<open>HTTPError\<close> on a failure status, and a broken connection raises after the pieces
  that arrived were written.
\<close>

fun fetch_urls :: "env \<Rightarrow> nat \<Rightarrow> string \<Rightarrow> string list \<Rightarrow> world \<Rightarrow> (error + unit) \<times> world" where
  "fetch_urls E p_task path_file [] w = (Inr (), w)"
| "fetch_urls E p_task path_file (url # rest) w =
     (case requests_get E url w of
        (Inl e, w1) \<Rightarrow> (Inl e, w1)
      | (Inr resp, w1) \<Rightarrow>
          if \<not> status_ok resp then (Inl HTTPError, w1)
          else
            let w2 = write_chunks p_task path_file (chunks resp) w1
            in if broken resp then (Inl (External ''ChunkedEncodingError''), w2)
               else fetch_urls E p_task path_file rest w2)"

text \<open>
  The loop \<open>while not progress.tasks[p_task].finished\<close>. It may run forever, so it
  takes fuel: one unit per pass, \<open>None\<close> when the fuel is used up.
\<close>

fun write_loop ::
  "nat \<Rightarrow> env \<Rightarrow> nat \<Rightarrow> string \<Rightarrow> string list \<Rightarrow> world \<Rightarrow> ((error + unit) \<times> world) option" where
  "write_loop 0 E p_task path_file us w =
     (if task_finished p_task w then Some (Inr (), w) else None)"
| "write_loop (Suc fuel) E p_task path_file us w =
     (if task_finished p_task w then Some (Inr (), w)
      else
        (case fetch_urls E p_task path_file us (open_wb path_file w) of
           (Inl e, w') \<Rightarrow> Some (Inl e, w')
         | (Inr u, w') \<Rightarrow> write_loop fuel E p_task path_file us w'))"

text \<open>The body of the \<open>try\<close> statement of \<open>_download\<close>.\<close>

definition try_body ::
  "nat \<Rightarrow> env \<Rightarrow> StreamManifest \<Rightarrow> string \<Rightarrow> world \<Rightarrow> ((error + unit) \<times> world) option" where
  "try_body fuel E stream_manifest path_file w =
     (let urls_count = length (urls stream_manifest) in
      if urls_count > 1 then
        (case add_task (of_nat urls_count) w of
           (p_task, w1) \<Rightarrow> write_loop fuel E p_task path_file (urls stream_manifest) w1)
      else
        (case first (urls stream_manifest) of
           Inl e \<Rightarrow> Some (Inl e, w)
         | Inr url0 \<Rightarrow>
             (case requests_get E url0 w of
                (Inl e, w1) \<Rightarrow> Some (Inl e, w1)
              | (Inr resp, w1) \<Rightarrow>
                  if \<not> status_ok resp then Some (Inl HTTPError, w1)
                  else
                    let total_size_in_bytes =
                          (case content_length resp of None \<Rightarrow> 0 | Some n \<Rightarrow> n);
                        progress_total = of_int total_size_in_bytes / 4096
                    in (case add_task progress_total w1 of
                          (p_task, w2) \<Rightarrow>
                            write_loop fuel E p_task path_file (urls stream_manifest) w2))))"

definition is_track :: "media \<Rightarrow> bool" where
  "is_track m = (case m of Track i \<Rightarrow> True | _ \<Rightarrow> False)"

definition is_video :: "media \<Rightarrow> bool" where
  "is_video m = (case m of Video i \<Rightarrow> True | _ \<Rightarrow> False)"

definition metadata_write :: "env \<Rightarrow> media \<Rightarrow> string \<Rightarrow> world \<Rightarrow> (error + bool) \<times> world" where
  "metadata_write E track path_file w =
     (let w1 = (if lyrics_save E then w\<lparr>reqs := reqs w @ [Lyrics_fetch track]\<rparr> else w) in
      case lift (metadata_save E track (map_of (fs w1) path_file)) of
        Inl e \<Rightarrow> (Inl e, w1)
      | Inr tagged \<Rightarrow> (Inr True, w1\<lparr>fs := AList.update path_file tagged (fs w1)\<rparr>))"

text \<open>What \<open>_download\<close> does after the \<open>try\<close> statement: decryption and tagging.\<close>

definition after_try ::
  "env \<Rightarrow> media \<Rightarrow> StreamManifest \<Rightarrow> string \<Rightarrow> world \<Rightarrow> (error + string) \<times> world" where
  "after_try E m stream_manifest path_file w =
     (case
        (if is_encrypted (encryption_type stream_manifest) then
           (case lift (decrypt_security_token E (encryption_key stream_manifest)) of
              Inl e \<Rightarrow> (Inl e, w)
            | Inr key_nonce \<Rightarrow>
                (case lift (decrypt_file E (map_of (fs w) path_file) key_nonce) of
                   Inl e \<Rightarrow> (Inl e, w)
                 | Inr plain \<Rightarrow>
                     (Inr (path_file @ ''_decrypted''),
                      w\<lparr>fs := AList.update (path_file @ ''_decrypted'') plain (fs w)\<rparr>)))
         else (Inr path_file, w))
      of
        (Inl e, w1) \<Rightarrow> (Inl e, w1)
      | (Inr tmp_path_file_decrypted, w1) \<Rightarrow>
          if \<not> is_video m then
            (case metadata_write E m tmp_path_file_decrypted w1 of
               (Inl e, w2) \<Rightarrow> (Inl e, w2)
             | (Inr ok, w2) \<Rightarrow> (Inr tmp_path_file_decrypted, w2))
          else (Inr tmp_path_file_decrypted, w1))"

text \<open>
  \<open>_download\<close>: the handler catches \<open>HTTPError\<close> only and hands it to the logger
  (the parameter \<open>fn_logger\<close>, declared a callable, is called with the exception);
  execution goes on after the \<open>try\<close> statement. Any other exception leaves the
  function.
\<close>

definition download ::
  "nat \<Rightarrow> env \<Rightarrow> media \<Rightarrow> StreamManifest \<Rightarrow> string \<Rightarrow> world \<Rightarrow> ((error + string) \<times> world) option" where
  "download fuel E m stream_manifest path_file w =
     (case try_body fuel E stream_manifest path_file w of
        None \<Rightarrow> None
      | Some (Inl HTTPError, w1) \<Rightarrow>
          Some (after_try E m stream_manifest path_file
                  (w1\<lparr>logs := logs w1 @ [Exception_logged HTTPError]\<rparr>))
      | Some (Inl e, w1) \<Rightarrow> Some (Inl e, w1)
      | Some (Inr u, w1) \<Rightarrow> Some (after_try E m stream_manifest path_file w1))"

section \<open>The single-item operation\<close>

definition instantiate_media :: "MediaType \<Rightarrow> string \<Rightarrow> error + media" where
  "instantiate_media mtype id_media =
     (case mtype of
        TRACK \<Rightarrow> Inr (Track id_media)
      | VIDEO \<Rightarrow> Inr (Video id_media)
      | ALBUM \<Rightarrow> Inr (Album id_media)
      | PLAYLIST \<Rightarrow> Inr (Playlist id_media)
      | MIX \<Rightarrow> Inr (Mix id_media)
      | OTHER tag \<Rightarrow> Inl MediaUnknown)"

text \<open>
  The first statement of \<open>item\<close>. An identifier is truthy when it is a non-empty
  string, a type tag when it is not \<open>None\<close>, a media handle likewise.
\<close>

definition resolve :: "media option \<Rightarrow> string option \<Rightarrow> MediaType option \<Rightarrow> error + media" where
  "resolve m media_id mtype =
     (case (media_id, mtype) of
        (Some i, Some t) \<Rightarrow>
          if i \<noteq> [] then instantiate_media t i
          else (case m of None \<Rightarrow> Inl MediaMissing | Some h \<Rightarrow> Inr h)
      | _ \<Rightarrow> (case m of None \<Rightarrow> Inl MediaMissing | Some h \<Rightarrow> Inr h))"

definition fetch_manifest :: "env \<Rightarrow> media \<Rightarrow> world \<Rightarrow> (error + string \<times> string) \<times> world" where
  "fetch_manifest E m w =
     ((if is_track m then lift (stream E m)
       else (case lift (get_url E m) of
               Inl e \<Rightarrow> Inl e
             | Inr manifest \<Rightarrow> Inr (manifest, VIDEO_value E))),
      w\<lparr>reqs := reqs w @ [Manifest_fetch m]\<rparr>)"

definition video_convert :: "env \<Rightarrow> string \<Rightarrow> world \<Rightarrow> (error + string) \<times> world" where
  "video_convert E path_file w =
     (let path_file_out = splitext_root E path_file @ ''.mp4'' in
      case lift (ffmpeg_copy E (map_of (fs w) path_file)) of
        Inl e \<Rightarrow> (Inl e, w)
      | Inr converted \<Rightarrow> (Inr path_file_out, w\<lparr>fs := AList.update path_file_out converted (fs w)\<rparr>))"

text \<open>The block under \<open>with tempfile.TemporaryDirectory(...)\<close>, cleanup included.\<close>

definition place ::
  "nat \<Rightarrow> env \<Rightarrow> media \<Rightarrow> StreamManifest \<Rightarrow> string \<Rightarrow> world
   \<Rightarrow> ((error + bool \<times> string) \<times> world) option" where
  "place fuel E m stream_manifest path_file w =
     (let tmp_path_file = path_join (tmp_path_dir E) (uuid4 E @ file_extension stream_manifest) in
      case download fuel E m stream_manifest tmp_path_file w of
        None \<Rightarrow> None
      | Some (Inl e, w1) \<Rightarrow> Some (Inl e, cleanup E w1)
      | Some (Inr tmp_path_file', w1) \<Rightarrow>
          (case
             (if is_video m \<and> video_convert_mp4 E then
                (case video_convert E tmp_path_file' w1 of
                   (Inl e, w2) \<Rightarrow> (Inl e, w2)
                 | (Inr converted, w2) \<Rightarrow>
                     (Inr (converted, splitext_root E path_file @ ''.mp4''), w2))
              else (Inr (tmp_path_file', path_file), w1))
           of
             (Inl e, w2) \<Rightarrow> Some (Inl e, cleanup E w2)
           | (Inr (src, dst), w2) \<Rightarrow>
               (case shutil_move src dst w2 of
                  (Inl e, w3) \<Rightarrow> Some (Inl e, cleanup E w3)
                | (Inr u, w3) \<Rightarrow> Some (Inr (True, dst), cleanup E w3))))"

definition item ::
  "nat \<Rightarrow> env \<Rightarrow> SkipExisting \<Rightarrow> string \<Rightarrow> string \<Rightarrow> media option \<Rightarrow> string option
   \<Rightarrow> MediaType option \<Rightarrow> bool \<Rightarrow> world \<Rightarrow> ((error + bool \<times> string) \<times> world) option" where
  "item fuel E skip_existing path_base file_template m media_id mtype video_download w =
     (case resolve m media_id mtype of
        Inl e \<Rightarrow> Some (Inl e, w)
      | Inr h \<Rightarrow>
          if \<not> video_download
          then Some (Inr (False, []), w\<lparr>logs := logs w @ [Video_skipped h]\<rparr>)
          else
            let file_name_relative = format_path_media E file_template h;
                path_file0 = abspath_join E path_base file_name_relative
            in
            (case fetch_manifest E h w of
               (Inl e, w1) \<Rightarrow> Some (Inl e, w1)
             | (Inr (manifest, mt), w1) \<Rightarrow>
                 (case stream_manifest_parse E manifest mt w1 of
                    (Inl e, w2) \<Rightarrow> Some (Inl e, w2)
                  | (Inr stream_manifest, w2) \<Rightarrow>
                      let path_file =
                            path_file_sanitize E (path_file0 @ file_extension stream_manifest);
                          download_skip =
                            (if skip_value skip_existing
                             then check_file_exists E (fs w2) path_file
                                    (skip_existing = ExtensionIgnore)
                             else False)
                      in
                      if \<not> download_skip
                      then place fuel E h stream_manifest path_file w2
                      else Some (Inr (False, path_file),
                                 w2\<lparr>logs := logs w2 @ [Download_skipped path_file]\<rparr>))))"

section \<open>The claims' own notions\<close>

text \<open>The term \<open>S.r if S.r else 1\<close> of the segment-count formula, as the spec writes it.\<close>

definition repeat_or_one :: "S \<Rightarrow> int" where
  "repeat_or_one s = (case r s of None \<Rightarrow> 1 | Some k \<Rightarrow> if k = 0 then 1 else k)"

text \<open>The errors that classify the request rather than report a failure at run time.\<close>

definition classification :: "error \<Rightarrow> bool" where
  "classification e = (e = MediaMissing \<or> e = MediaUnknown \<or> e = UnknownManifestFormat)"

text \<open>A complete pair of identifier and type: both given, the identifier not empty.\<close>

definition pair_supplied :: "string option \<Rightarrow> MediaType option \<Rightarrow> bool" where
  "pair_supplied media_id mtype =
     (case media_id of None \<Rightarrow> False
      | Some i \<Rightarrow> (case mtype of None \<Rightarrow> False | Some t \<Rightarrow> i \<noteq> []))"

definition recognized :: "MediaType \<Rightarrow> bool" where
  "recognized t = (t = TRACK \<or> t = VIDEO \<or> t = ALBUM \<or> t = PLAYLIST \<or> t = MIX)"

text \<open>The vertical resolution of a rendition (0 when it has none).\<close>

definition height :: "PlaylistEntry \<Rightarrow> nat" where
  "height p = (case resolution (stream_info p) of None \<Rightarrow> 0 | Some (width, h) \<Rightarrow> h)"






text \<open>The playlist that loading a rendition's URI gives, if it loads.\<close>

definition loaded :: "env \<Rightarrow> PlaylistEntry \<Rightarrow> M3U8 option" where
  "loaded E p = (case m3u8_fetch E (uri p) of Inl msg \<Rightarrow> None | Inr l \<Rightarrow> Some l)"

definition is_http_get :: "event \<Rightarrow> bool" where
  "is_http_get e = (case e of Http_get u \<Rightarrow> True | _ \<Rightarrow> False)"

text \<open>
  The last request sent is a content request that the server answered with a failure
  status.
\<close>

definition ends_with_failed_request :: "env \<Rightarrow> world \<Rightarrow> bool" where
  "ends_with_failed_request E w =
     (case rev (reqs w) of
        Http_get u # before \<Rightarrow>
          (case http E (length before) u of
             Inr resp \<Rightarrow> \<not> status_ok resp
           | Inl msg \<Rightarrow> False)
      | _ \<Rightarrow> False)"

section \<open>An example\<close>

text \<open>
  A small world to run the module in: a track whose manifest has two segments, a
  second manifest with the timeline of the spec's example, a JSON envelope with a key
  and one whose key is \<open>null\<close>, a multivariant playlist with renditions of 360 and
  720 lines, the same with the renditions in descending order, and a media playlist.
  The server answers the request for the second segment of the track with a failure
  status as long as at most two requests went before, and with the data afterwards; it
  always answers the request for the second segment of the video with a failure status;
  a request for \<open>slow.flac\<close> times out.
\<close>

definition example_mpd :: "S list \<Rightarrow> MPEGDASH" where
  "example_mpd entries =
     \<lparr>periods = [\<lparr>adaptation_sets = [\<lparr>as_mime_type = ''audio/mp4'',
        representations = [\<lparr>rep_codecs = ''flac'',
          segment_templates = [\<lparr>media = ''https://cdn/$Number$.mp4'',
            segment_timelines = [\<lparr>Ss = entries\<rparr>]\<rparr>]\<rparr>]\<rparr>]\<rparr>]\<rparr>"

definition example_rendition :: "string \<Rightarrow> nat \<Rightarrow> nat \<Rightarrow> PlaylistEntry" where
  "example_rendition u width h =
     \<lparr>uri = u, stream_info = \<lparr>resolution = Some (width, h), si_codecs = ''avc1''\<rparr>\<rparr>"

definition example_media_playlist :: "string list \<Rightarrow> M3U8" where
  "example_media_playlist segment_files = \<lparr>is_variant = False, playlists = [], files = segment_files\<rparr>"

definition example_variant :: M3U8 where
  "example_variant =
     \<lparr>is_variant = True,
      playlists = [example_rendition ''p360.m3u8'' 640 360,
                   example_rendition ''p720.m3u8'' 1280 720],
      files = []\<rparr>"


definition example_env :: env where
  "example_env =
     \<lparr>MPD_value = ''application/dash+xml'',
      BTS_value = ''application/vnd.tidal.bts'',
      VIDEO_value = ''video/mp2t'',
      quality_video = 480,
      video_convert_mp4 = False,
      b64_mpd = (\<lambda>s. if s = ''dash6''
                       then Inr (example_mpd [\<lparr>r = Some 2\<rparr>, \<lparr>r = None\<rparr>, \<lparr>r = Some 0\<rparr>])
                     else if s = ''dash2'' then Inr (example_mpd [])
                     else Inl ''decode error''),
      b64_json = (\<lambda>s. if s = ''bts''
                        then Inr \<lparr>j_urls = Some [''https://cdn/a.flac''], j_codecs = Some ''flac'',
                                  mimeType = Some ''audio/flac'',
                                  encryptionType = Some ''OLD_AES'',
                                  encryptionKey = Some (Some ''key'')\<rparr>
                      else if s = ''bts_null''
                        then Inr \<lparr>j_urls = Some [''https://cdn/a.flac''], j_codecs = Some ''flac'',
                                  mimeType = Some ''audio/flac'',
                                  encryptionType = Some ''OLD_AES'',
                                  encryptionKey = Some None\<rparr>
                      else Inl ''decode error''),
      m3u8_fetch = (\<lambda>u. if u = ''variant.m3u8'' then Inr example_variant
                        else if u = ''p360.m3u8'' then Inr (example_media_playlist [''a360.ts''])
                        else if u = ''p720.m3u8''
                          then Inr (example_media_playlist
                                      [''https://cdn/v0.ts'', ''https://cdn/v1.ts''])
                        else if u = ''media.m3u8''
                          then Inr (example_media_playlist [''seg0.ts'', ''seg1.ts''])
                        else Inl ''not found''),
      stream = (\<lambda>m. Inr (''dash2'', ''application/dash+xml'')),
      get_url = (\<lambda>m. Inr ''variant.m3u8''),
      http = (\<lambda>n u. if u = ''https://cdn/slow.flac'' then Inl ''ReadTimeout''
                    else if u = ''https://cdn/1.mp4'' \<and> n \<le> 2 \<or> u = ''https://cdn/v1.ts''
                      then Inr \<lparr>status_ok = False, content_length = None, chunks = [],
                                broken = False\<rparr>
                      else Inr \<lparr>status_ok = True, content_length = Some 4,
                                chunks = [''DATA''], broken = False\<rparr>),
      format_path_media = (\<lambda>template m. template),
      abspath_join = (\<lambda>base name. base @ ''/'' @ name),
      path_file_sanitize = (\<lambda>p. p),
      splitext_root = (\<lambda>p. takeWhile (\<lambda>c. c \<noteq> CHR ''.'') p),
      tmp_path_dir = ''/tmp/d'',
      uuid4 = ''u'',
      decrypt_security_token =
        (\<lambda>k. case k of None \<Rightarrow> Inl ''no key'' | Some k' \<Rightarrow> Inr (k', ''nonce'')),
      decrypt_file = (\<lambda>c kn. case c of None \<Rightarrow> Inl ''no file'' | Some x \<Rightarrow> Inr x),
      lyrics_save = False,
      metadata_save = (\<lambda>m c. case c of None \<Rightarrow> Inl ''no file'' | Some x \<Rightarrow> Inr x),
      ffmpeg_copy = (\<lambda>c. case c of None \<Rightarrow> Inl ''no file'' | Some x \<Rightarrow> Inr x)\<rparr>"

definition example_world :: "(string \<times> string) list \<Rightarrow> world" where
  "example_world files_on_disk = \<lparr>reqs = [], fs = files_on_disk, logs = [], tasks = []\<rparr>"

definition example_track_manifest :: StreamManifest where
  "example_track_manifest =
     \<lparr>urls = [''https://cdn/0.mp4'', ''https://cdn/1.mp4''], codecs = ''flac'',
      file_extension = ''.mp4'', encryption_type = ''NONE'', encryption_key = None,
      mime_type = ''audio/mp4''\<rparr>"

definition example_slow_manifest :: StreamManifest where
  "example_slow_manifest =
     \<lparr>urls = [''https://cdn/a.flac'', ''https://cdn/slow.flac''], codecs = ''flac'',
      file_extension = ''.flac'', encryption_type = ''NONE'', encryption_key = None,
      mime_type = ''audio/flac''\<rparr>"

definition example_timeline_manifest :: StreamManifest where
  "example_timeline_manifest =
     \<lparr>urls = [''https://cdn/0.mp4'', ''https://cdn/1.mp4'', ''https://cdn/2.mp4'',
              ''https://cdn/3.mp4'', ''https://cdn/4.mp4'', ''https://cdn/5.mp4''],
      codecs = ''flac'', file_extension = ''.mp4'', encryption_type = ''NONE'',
      encryption_key = None, mime_type = ''audio/mp4''\<rparr>"

definition example_json_manifest :: StreamManifest where
  "example_json_manifest =
     \<lparr>urls = [''https://cdn/a.flac''], codecs = ''flac'', file_extension = ''.flac'',
      encryption_type = ''OLD_AES'', encryption_key = Some ''key'',
      mime_type = ''audio/flac''\<rparr>"

definition example_null_key_manifest :: StreamManifest where
  "example_null_key_manifest =
     \<lparr>urls = [''https://cdn/a.flac''], codecs = ''flac'', file_extension = ''.flac'',
      encryption_type = ''OLD_AES'', encryption_key = None,
      mime_type = ''audio/flac''\<rparr>"

section \<open>File extension\<close>

lemma str_in_sublist: "str_in sub s = sublist sub s"
  by (induction s) (simp_all add: sublist_Cons_right)

lemma str_in_iff: "str_in sub s \<longleftrightarrow> (\<exists>p q. s = p @ sub @ q)"
  by (simp add: str_in_sublist sublist_def)

text \<open>
  Claim C7. The extension is decided by the URL alone, by substring match in the order
  \<open>.flac\<close>, \<open>.mp4\<close>, \<open>.ts\<close>, and is \<open>.m4a\<close> when none occurs; the codec string has no
  influence on the result.
\<close>

theorem get_file_extension_priority:
  "get_file_extension stream_url stream_codec =
     (if (\<exists>p q. stream_url = p @ ''.flac'' @ q) then ''.flac''
      else if (\<exists>p q. stream_url = p @ ''.mp4'' @ q) then ''.mp4''
      else if (\<exists>p q. stream_url = p @ ''.ts'' @ q) then ''.ts''
      else ''.m4a'')
   \<and> get_file_extension stream_url stream_codec = get_file_extension stream_url other_codec"
  unfolding get_file_extension_def str_in_iff by simp

section \<open>The three normalizers\<close>

lemma count_segments_sum:
  "count_segments ss n = n + sum_list (map repeat_or_one ss)"
  by (induction ss arbitrary: n) (simp_all add: repeat_or_one_def split: option.splits)

lemma populate_urls_map:
  "populate_urls pattern idxs acc =
     acc @ map (\<lambda>index. str_replace ''$Number$'' (str_nat index) pattern) idxs"
  by (induction idxs arbitrary: acc) simp_all

lemma mpd_fields_Inr:
  assumes "mpd_fields mpd = Inr (us, cs, mt, et, ek)"
  shows "\<exists>period aset rep tmpl timeline.
           first (periods mpd) = Inr period \<and>
           first (adaptation_sets period) = Inr aset \<and>
           first (representations aset) = Inr rep \<and>
           first (segment_templates rep) = Inr tmpl \<and>
           first (segment_timelines tmpl) = Inr timeline \<and>
           us = map (\<lambda>index. str_replace ''$Number$'' (str_nat index) (media tmpl))
                  [0 ..< nat (2 + sum_list (map repeat_or_one (Ss timeline)))] \<and>
           cs = rep_codecs rep \<and> mt = as_mime_type aset \<and> et = ''NONE'' \<and> ek = None"
  using assms
  by (auto simp: mpd_fields_def count_segments_sum populate_urls_map py_range_def
           split: sum.splits)

lemma build_manifest_Inr:
  assumes "build_manifest (us, cs, mt, et, ek) = Inr sm"
  shows "us \<noteq> [] \<and> urls sm = us \<and> codecs sm = cs \<and> mime_type sm = mt \<and>
         encryption_type sm = et \<and> encryption_key sm = ek \<and>
         file_extension sm = get_file_extension (hd us) cs"
  using assms by (auto simp: build_manifest_def first_def split: list.splits)

lemma bts_fields_Inr:
  assumes "bts_fields j = Inr (us, cs, mt, et, ek)"
  shows "j_urls j = Some us \<and> j_codecs j = Some cs \<and> mimeType j = Some mt \<and>
         encryptionType j = Some et \<and>
         (if et \<noteq> ''NONE'' then encryptionKey j = Some ek else ek = None)"
  using assms
  by (cases "encryptionKey j")
     (auto simp: bts_fields_def getitem_def is_encrypted_def split: option.splits if_splits)

lemma video_fields_Inr:
  assumes "video_fields E manifest mt w = (Inr (us, cs, mt', et, ek), w')"
  shows "et = ''NONE'' \<and> ek = None \<and> mt' = mt"
  using assms
  by (auto simp: video_fields_def split: sum.splits prod.splits option.splits)

text \<open>
  Claim C6. For an adaptive-streaming manifest that is accepted, the number of URLs is
  2 plus the sum over the timeline entries of \<open>S.r if S.r else 1\<close>, and the URLs are, in
  ascending index order from 0, the media pattern of the first segment template with
  the index put in place of \<open>$Number$\<close>.
\<close>

theorem mpd_segment_count_and_urls:
  assumes "mt = MPD_value E" and "b64_mpd E manifest = Inr mpd"
    and "stream_manifest_parse E manifest mt w = (Inr sm, w')"
  shows "\<exists>period aset rep tmpl timeline.
           first (periods mpd) = Inr period \<and>
           first (adaptation_sets period) = Inr aset \<and>
           first (representations aset) = Inr rep \<and>
           first (segment_templates rep) = Inr tmpl \<and>
           first (segment_timelines tmpl) = Inr timeline \<and>
           int (length (urls sm)) = 2 + sum_list (map repeat_or_one (Ss timeline)) \<and>
           urls sm = map (\<lambda>index. str_replace ''$Number$'' (str_nat index) (media tmpl))
                       [0 ..< length (urls sm)]"
proof -
  from assms obtain f where f: "mpd_fields mpd = Inr f" and b: "build_manifest f = Inr sm"
    by (auto simp: stream_manifest_parse_def lift_def split: sum.splits)
  obtain us cs mt' et ek where f_eq: "f = (us, cs, mt', et, ek)"
    by (cases f) auto
  from mpd_fields_Inr [OF f [unfolded f_eq]]
  obtain period aset rep tmpl timeline where
    path: "first (periods mpd) = Inr period" "first (adaptation_sets period) = Inr aset"
      "first (representations aset) = Inr rep" "first (segment_templates rep) = Inr tmpl"
      "first (segment_timelines tmpl) = Inr timeline"
    and us: "us = map (\<lambda>index. str_replace ''$Number$'' (str_nat index) (media tmpl))
                  [0 ..< nat (2 + sum_list (map repeat_or_one (Ss timeline)))]"
    by blast
  from build_manifest_Inr [OF b [unfolded f_eq]] have ne: "us \<noteq> []" and u: "urls sm = us"
    by simp_all
  from ne us have pos: "0 < 2 + sum_list (map repeat_or_one (Ss timeline))"
    by (cases "0 < 2 + sum_list (map repeat_or_one (Ss timeline))") simp_all
  have len: "length (urls sm) = nat (2 + sum_list (map repeat_or_one (Ss timeline)))"
    using u us by simp
  have "int (length (urls sm)) = 2 + sum_list (map repeat_or_one (Ss timeline))"
    using len pos by simp
  moreover have "urls sm = map (\<lambda>index. str_replace ''$Number$'' (str_nat index) (media tmpl))
                       [0 ..< length (urls sm)]"
    using u us len by simp
  ultimately show ?thesis using path by blast
qed

lemma example_timeline_parse:
  "stream_manifest_parse example_env ''dash6'' ''application/dash+xml'' (example_world []) =
     (Inr example_timeline_manifest, example_world [])"
  by code_simp

theorem mpd_segment_count_and_urls_witness:
  "stream_manifest_parse example_env ''dash6'' (MPD_value example_env) (example_world []) =
     (Inr example_timeline_manifest, example_world []) \<and>
   int (length (urls example_timeline_manifest)) =
     2 + sum_list (map repeat_or_one [\<lparr>r = Some 2\<rparr>, \<lparr>r = None\<rparr>, \<lparr>r = Some 0\<rparr>]) \<and>
   2 + sum_list (map repeat_or_one [\<lparr>r = Some 2\<rparr>, \<lparr>r = None\<rparr>, \<lparr>r = Some 0\<rparr>]) = 6 \<and>
   urls example_timeline_manifest =
     map (\<lambda>index. str_replace ''$Number$'' (str_nat index) ''https://cdn/$Number$.mp4'')
       [0 ..< 6]"
proof -
  have tag: "''application/dash+xml'' = MPD_value example_env"
    by (simp add: example_env_def)
  have dec: "b64_mpd example_env ''dash6'' =
      Inr (example_mpd [\<lparr>r = Some 2\<rparr>, \<lparr>r = None\<rparr>, \<lparr>r = Some 0\<rparr>])"
    by (simp add: example_env_def)
  have six: "length (urls example_timeline_manifest) = 6"
    by (simp add: example_timeline_manifest_def)
  from mpd_segment_count_and_urls [OF tag dec example_timeline_parse]
  show ?thesis
    using example_timeline_parse tag six
    by (auto simp: example_mpd_def first_def repeat_or_one_def)
qed

text \<open>
  Claim C5, as stated, fails: a JSON envelope with an encryption type other than
  \<open>NONE\<close> and the key \<open>null\<close> is accepted, and the manifest has the encryption type
  \<open>OLD_AES\<close> and the key \<open>None\<close>.
\<close>

theorem null_key_accepted:
  "b64_json example_env ''bts_null'' =
     Inr \<lparr>j_urls = Some [''https://cdn/a.flac''], j_codecs = Some ''flac'',
          mimeType = Some ''audio/flac'', encryptionType = Some ''OLD_AES'',
          encryptionKey = Some None\<rparr> \<and>
   stream_manifest_parse example_env ''bts_null'' (BTS_value example_env) (example_world []) =
     (Inr example_null_key_manifest, example_world []) \<and>
   encryption_type example_null_key_manifest = ''OLD_AES'' \<and>
   encryption_key example_null_key_manifest = None"
  by code_simp

text \<open>
  Claim C5, amended. In every manifest that \<open>stream_manifest_parse\<close> returns, the
  encryption type \<open>NONE\<close> comes with the key \<open>None\<close>; and the key is \<open>None\<close> only when
  the type is \<open>NONE\<close> or the manifest comes from a JSON envelope whose key is \<open>null\<close>.
  The adaptive-streaming and playlist branches always give \<open>NONE\<close> and no key; the
  JSON branch copies the type, and copies the value of the key exactly when the type is
  not \<open>NONE\<close>.
\<close>

theorem encryption_key_none_iff:
  assumes "stream_manifest_parse E manifest mt w = (Inr sm, w')"
  shows "(encryption_type sm = ''NONE'' \<longrightarrow> encryption_key sm = None) \<and>
         (encryption_key sm = None \<longleftrightarrow>
            encryption_type sm = ''NONE'' \<or>
            (mt \<noteq> MPD_value E \<and> mt = BTS_value E \<and>
             (\<exists>j. b64_json E manifest = Inr j \<and> encryptionKey j = Some None))) \<and>
         (mt = MPD_value E \<or> mt \<noteq> BTS_value E \<longrightarrow>
            encryption_type sm = ''NONE'' \<and> encryption_key sm = None) \<and>
         (mt \<noteq> MPD_value E \<and> mt = BTS_value E \<longrightarrow>
            (\<exists>j. b64_json E manifest = Inr j \<and>
                 encryptionType j = Some (encryption_type sm) \<and>
                 (if encryption_type sm \<noteq> ''NONE''
                  then encryptionKey j = Some (encryption_key sm)
                  else encryption_key sm = None)))"
proof -
  consider (mpd) "mt = MPD_value E"
    | (bts) "mt \<noteq> MPD_value E" "mt = BTS_value E"
    | (video) "mt \<noteq> MPD_value E" "mt \<noteq> BTS_value E" "mt = VIDEO_value E"
    | (other) "mt \<noteq> MPD_value E" "mt \<noteq> BTS_value E" "mt \<noteq> VIDEO_value E"
    by blast
  then show ?thesis
  proof cases
    case mpd
    with assms obtain mpd f where "mpd_fields mpd = Inr f" and b: "build_manifest f = Inr sm"
      by (auto simp: stream_manifest_parse_def split: sum.splits)
    moreover obtain us cs mt' et ek where f: "f = (us, cs, mt', et, ek)" by (cases f) auto
    ultimately have "et = ''NONE'' \<and> ek = None" using mpd_fields_Inr by blast
    with build_manifest_Inr [OF b [unfolded f]] mpd show ?thesis by simp
  next
    case bts
    with assms obtain j f where j: "b64_json E manifest = Inr j"
      and "bts_fields j = Inr f" and b: "build_manifest f = Inr sm"
      by (auto simp: stream_manifest_parse_def lift_def split: sum.splits)
    moreover obtain us cs mt' et ek where f: "f = (us, cs, mt', et, ek)" by (cases f) auto
    ultimately have "bts_fields j = Inr (us, cs, mt', et, ek)" by simp
    from bts_fields_Inr [OF this] build_manifest_Inr [OF b [unfolded f]]
    have facts: "encryptionType j = Some (encryption_type sm)"
      "if encryption_type sm \<noteq> ''NONE''
       then encryptionKey j = Some (encryption_key sm) else encryption_key sm = None"
      by (simp_all split: if_splits)
    show ?thesis
    proof (cases "encryption_type sm = ''NONE''")
      case True
      with facts bts j show ?thesis by auto
    next
      case False
      with facts have k: "encryptionKey j = Some (encryption_key sm)" by simp
      with False facts(1) bts j show ?thesis by auto
    qed
  next
    case video
    with assms obtain f where v: "video_fields E manifest mt w = (Inr f, w')"
      and b: "build_manifest f = Inr sm"
      by (auto simp: stream_manifest_parse_def split: sum.splits prod.splits)
    obtain us cs mt' et ek where f: "f = (us, cs, mt', et, ek)" by (cases f) auto
    from video_fields_Inr [OF v [unfolded f]] build_manifest_Inr [OF b [unfolded f]] video
    show ?thesis by simp
  next
    case other
    with assms show ?thesis by (simp add: stream_manifest_parse_def)
  qed
qed

lemma example_json_parse:
  "stream_manifest_parse example_env ''bts'' ''application/vnd.tidal.bts'' (example_world []) =
     (Inr example_json_manifest, example_world [])"
  by code_simp

theorem encryption_key_none_iff_witness:
  "stream_manifest_parse example_env ''bts'' ''application/vnd.tidal.bts'' (example_world []) =
     (Inr example_json_manifest, example_world []) \<and>
   encryption_type example_json_manifest = ''OLD_AES'' \<and>
   encryption_key example_json_manifest = Some ''key'' \<and>
   b64_json example_env ''bts'' =
     Inr \<lparr>j_urls = Some [''https://cdn/a.flac''], j_codecs = Some ''flac'',
          mimeType = Some ''audio/flac'', encryptionType = Some ''OLD_AES'',
          encryptionKey = Some (Some ''key'')\<rparr>"
  using encryption_key_none_iff [OF example_json_parse] example_json_parse
  by (simp add: example_json_manifest_def example_env_def)

section \<open>Errors of classification\<close>

lemma lift_error: "lift x = Inl e \<Longrightarrow> \<not> classification e"
  by (auto simp: lift_def classification_def split: sum.splits)

lemma first_error: "first xs = Inl e \<Longrightarrow> \<not> classification e"
  by (auto simp: first_def classification_def split: list.splits)

lemma getitem_error: "getitem x = Inl e \<Longrightarrow> \<not> classification e"
  by (auto simp: getitem_def classification_def split: option.splits)

lemma m3u8_load_error: "m3u8_load E u w = (Inl e, w') \<Longrightarrow> \<not> classification e"
  by (auto simp: m3u8_load_def dest: lift_error)

lemma extract_loop_error:
  "extract_loop E q ps acc w = (Inl e, w') \<Longrightarrow> \<not> classification e"
proof (induction E q ps acc w rule: extract_loop.induct)
  case (1 E quality acc w)
  then show ?case by simp
next
  case (2 E quality playlist rest m3u8_playlist resolution_best mt w)
  then show ?case
    by (auto simp: classification_def split: option.splits prod.splits if_splits sum.splits
             dest: m3u8_load_error)
qed

lemma extract_video_stream_error:
  "extract_video_stream E v q w = (Inl e, w') \<Longrightarrow> \<not> classification e"
  by (auto simp: extract_video_stream_def split: if_splits prod.splits sum.splits
           dest: extract_loop_error)

lemma video_fields_error:
  "video_fields E manifest mt w = (Inl e, w') \<Longrightarrow> \<not> classification e"
  by (auto simp: video_fields_def classification_def
           split: prod.splits sum.splits option.splits
           dest: m3u8_load_error extract_video_stream_error)

lemma mpd_fields_error: "mpd_fields mpd = Inl e \<Longrightarrow> \<not> classification e"
  by (auto simp: mpd_fields_def Let_def split: sum.splits dest: first_error)

lemma bts_fields_error: "bts_fields j = Inl e \<Longrightarrow> \<not> classification e"
  by (auto simp: bts_fields_def split: sum.splits if_splits dest: getitem_error)

lemma build_manifest_error: "build_manifest f = Inl e \<Longrightarrow> \<not> classification e"
  by (auto simp: build_manifest_def split: prod.splits sum.splits dest: first_error)

lemma stream_manifest_parse_error:
  assumes "stream_manifest_parse E manifest mt w = (Inl e, w')"
  shows "(mt = MPD_value E \<or> mt = BTS_value E \<or> mt = VIDEO_value E) \<and> \<not> classification e
         \<or> mt \<noteq> MPD_value E \<and> mt \<noteq> BTS_value E \<and> mt \<noteq> VIDEO_value E \<and>
           e = UnknownManifestFormat \<and> w' = w"
  using assms
  by (auto simp: stream_manifest_parse_def split: if_splits sum.splits prod.splits
           dest: lift_error mpd_fields_error bts_fields_error build_manifest_error
                 video_fields_error)

lemma requests_get_error: "requests_get E u w = (Inl e, w') \<Longrightarrow> \<not> classification e"
  by (auto simp: requests_get_def dest: lift_error)

lemma fetch_urls_error:
  "fetch_urls E p path us w = (Inl e, w') \<Longrightarrow> \<not> classification e"
proof (induction us arbitrary: w)
  case Nil
  then show ?case by simp
next
  case (Cons u us)
  then show ?case
    by (auto simp: classification_def Let_def split: prod.splits sum.splits if_splits
             dest: requests_get_error)
qed

lemma write_loop_error:
  "write_loop fuel E p path us w = Some (Inl e, w') \<Longrightarrow> \<not> classification e"
proof (induction fuel arbitrary: w)
  case 0
  then show ?case by (simp split: if_splits)
next
  case (Suc fuel)
  then show ?case
    by (auto split: if_splits prod.splits sum.splits dest: fetch_urls_error)
qed

lemma try_body_error:
  "try_body fuel E sm path w = Some (Inl e, w') \<Longrightarrow> \<not> classification e"
  by (auto simp: try_body_def Let_def classification_def add_task_def
           split: if_splits prod.splits sum.splits
           dest: write_loop_error first_error requests_get_error)

lemma metadata_write_error:
  "metadata_write E m path w = (Inl e, w') \<Longrightarrow> \<not> classification e"
  by (auto simp: metadata_write_def Let_def split: sum.splits dest: lift_error)

lemma after_try_error:
  "after_try E m sm path w = (Inl e, w') \<Longrightarrow> \<not> classification e"
  by (auto simp: after_try_def split: if_splits prod.splits sum.splits
           dest: lift_error metadata_write_error)

lemma download_error:
  "download fuel E m sm path w = Some (Inl e, w') \<Longrightarrow> \<not> classification e"
  by (auto simp: download_def split: option.splits prod.splits sum.splits error.splits
           dest: try_body_error after_try_error)

lemma video_convert_error:
  "video_convert E path w = (Inl e, w') \<Longrightarrow> \<not> classification e"
  by (auto simp: video_convert_def Let_def split: sum.splits dest: lift_error)

lemma shutil_move_error:
  "shutil_move src dst w = (Inl e, w') \<Longrightarrow> \<not> classification e"
  by (auto simp: shutil_move_def classification_def split: option.splits)

lemma place_error:
  "place fuel E m sm path w = Some (Inl e, w') \<Longrightarrow> \<not> classification e"
  by (auto simp: place_def Let_def split: option.splits prod.splits sum.splits if_splits
           dest: download_error video_convert_error shutil_move_error)

lemma fetch_manifest_error:
  "fetch_manifest E m w = (Inl e, w') \<Longrightarrow> \<not> classification e"
  by (auto simp: fetch_manifest_def split: if_splits sum.splits dest: lift_error)

lemma instantiate_media_iff:
  "instantiate_media t i = Inl e \<longleftrightarrow> e = MediaUnknown \<and> \<not> recognized t"
  by (cases t) (auto simp: instantiate_media_def recognized_def)

lemma resolve_error:
  "resolve m media_id mtype = Inl e \<longleftrightarrow>
     (e = MediaMissing \<and> m = None \<and> \<not> pair_supplied media_id mtype) \<or>
     (e = MediaUnknown \<and> pair_supplied media_id mtype \<and> (\<exists>t. mtype = Some t \<and> \<not> recognized t))"
  by (auto simp: resolve_def pair_supplied_def instantiate_media_iff split: option.splits)


lemma item_classification_error:
  assumes "item fuel E skip_existing path_base file_template m media_id mtype video_download w =
             Some (Inl e, w')"
    and "classification e"
  shows "(resolve m media_id mtype = Inl e \<and> w' = w) \<or>
         (e = UnknownManifestFormat \<and> video_download \<and>
          (\<exists>h manifest mt. resolve m media_id mtype = Inr h \<and>
             fetch_manifest E h w = (Inr (manifest, mt), w') \<and>
             mt \<noteq> MPD_value E \<and> mt \<noteq> BTS_value E \<and> mt \<noteq> VIDEO_value E))"
proof (cases "resolve m media_id mtype")
  case (Inl e')
  with assms show ?thesis by (simp add: item_def)
next
  case (Inr h)
  show ?thesis
  proof (cases video_download)
    case False
    with Inr assms show ?thesis by (simp add: item_def)
  next
    case True
    obtain r1 w1 where fm: "fetch_manifest E h w = (r1, w1)" by (cases "fetch_manifest E h w")
    show ?thesis
    proof (cases r1)
      case (Inl e1)
      with Inr True fm assms(1) have "e = e1" "w' = w1" by (simp_all add: item_def)
      with fm Inl fetch_manifest_error assms(2) show ?thesis by blast
    next
      case manifest: (Inr mm)
      obtain manifest mt where mm: "mm = (manifest, mt)" by (cases mm)
      obtain r2 w2 where sp: "stream_manifest_parse E manifest mt w1 = (r2, w2)"
        by (cases "stream_manifest_parse E manifest mt w1")
      show ?thesis
      proof (cases r2)
        case (Inl e2)
        with Inr True fm manifest mm sp assms(1) have eq: "e = e2" "w' = w2"
          by (simp_all add: item_def)
        from stream_manifest_parse_error [OF sp [unfolded Inl]] assms(2) eq
        have "mt \<noteq> MPD_value E \<and> mt \<noteq> BTS_value E \<and> mt \<noteq> VIDEO_value E \<and>
              e = UnknownManifestFormat \<and> w' = w1"
          by auto
        with Inr True fm manifest mm show ?thesis by auto
      next
        case sm: (Inr sm)
        with Inr True fm manifest mm sp assms(1)
        have "\<exists>p. place fuel E h sm p w2 = Some (Inl e, w')"
          by (auto simp: item_def Let_def split: if_splits)
        with place_error assms(2) show ?thesis by blast
      qed
    qed
  qed
qed

text \<open>
  Claim C8. The single-item operation raises \<open>MediaMissing\<close> exactly when no media
  handle and no complete pair of identifier and type is supplied, and \<open>MediaUnknown\<close>
  exactly when a complete pair is supplied whose type tag is none of track, video,
  album, playlist and mix; \<open>instantiate_media\<close> raises nothing else. Manifest parsing
  raises \<open>UnknownManifestFormat\<close> exactly when the tag is none of the three known
  ones. Each of the three ends the item at once: the first two leave the world as
  it was, the third only after the manifest was fetched.
\<close>

theorem classification_errors:
  "(item fuel E skip_existing path_base file_template m media_id mtype video_download w =
      Some (Inl MediaMissing, w')
    \<longleftrightarrow> m = None \<and> \<not> pair_supplied media_id mtype \<and> w' = w) \<and>
   (item fuel E skip_existing path_base file_template m media_id mtype video_download w =
      Some (Inl MediaUnknown, w')
    \<longleftrightarrow> pair_supplied media_id mtype \<and> (\<exists>t. mtype = Some t \<and> \<not> recognized t) \<and> w' = w) \<and>
   (instantiate_media t i = Inl e \<longleftrightarrow> e = MediaUnknown \<and> \<not> recognized t) \<and>
   (stream_manifest_parse E manifest mt w = (Inl UnknownManifestFormat, w')
    \<longleftrightarrow> mt \<noteq> MPD_value E \<and> mt \<noteq> BTS_value E \<and> mt \<noteq> VIDEO_value E \<and> w' = w) \<and>
   (item fuel E skip_existing path_base file_template m media_id mtype video_download w =
      Some (Inl UnknownManifestFormat, w')
    \<longleftrightarrow> video_download \<and>
        (\<exists>h manifest' mt'. resolve m media_id mtype = Inr h \<and>
           fetch_manifest E h w = (Inr (manifest', mt'), w') \<and>
           mt' \<noteq> MPD_value E \<and> mt' \<noteq> BTS_value E \<and> mt' \<noteq> VIDEO_value E))"
proof (intro conjI)
  show "item fuel E skip_existing path_base file_template m media_id mtype video_download w =
      Some (Inl MediaMissing, w')
    \<longleftrightarrow> m = None \<and> \<not> pair_supplied media_id mtype \<and> w' = w"
  proof
    assume a: "item fuel E skip_existing path_base file_template m media_id mtype video_download w =
      Some (Inl MediaMissing, w')"
    have "classification MediaMissing" by (simp add: classification_def)
    from item_classification_error [OF a this]
    have "resolve m media_id mtype = Inl MediaMissing \<and> w' = w" by simp
    then show "m = None \<and> \<not> pair_supplied media_id mtype \<and> w' = w"
      by (simp add: resolve_error)
  next
    assume "m = None \<and> \<not> pair_supplied media_id mtype \<and> w' = w"
    then have "resolve m media_id mtype = Inl MediaMissing" "w' = w"
      by (simp_all add: resolve_error)
    then show "item fuel E skip_existing path_base file_template m media_id mtype video_download w =
      Some (Inl MediaMissing, w')"
      by (simp add: item_def)
  qed
next
  show "item fuel E skip_existing path_base file_template m media_id mtype video_download w =
      Some (Inl MediaUnknown, w')
    \<longleftrightarrow> pair_supplied media_id mtype \<and> (\<exists>t. mtype = Some t \<and> \<not> recognized t) \<and> w' = w"
  proof
    assume a: "item fuel E skip_existing path_base file_template m media_id mtype video_download w =
      Some (Inl MediaUnknown, w')"
    have "classification MediaUnknown" by (simp add: classification_def)
    from item_classification_error [OF a this]
    have "resolve m media_id mtype = Inl MediaUnknown \<and> w' = w" by simp
    then show "pair_supplied media_id mtype \<and> (\<exists>t. mtype = Some t \<and> \<not> recognized t) \<and> w' = w"
      by (simp add: resolve_error)
  next
    assume "pair_supplied media_id mtype \<and> (\<exists>t. mtype = Some t \<and> \<not> recognized t) \<and> w' = w"
    then have "resolve m media_id mtype = Inl MediaUnknown" "w' = w"
      by (simp_all add: resolve_error)
    then show "item fuel E skip_existing path_base file_template m media_id mtype video_download w =
      Some (Inl MediaUnknown, w')"
      by (simp add: item_def)
  qed
next
  show "instantiate_media t i = Inl e \<longleftrightarrow> e = MediaUnknown \<and> \<not> recognized t"
    by (rule instantiate_media_iff)
next
  show "stream_manifest_parse E manifest mt w = (Inl UnknownManifestFormat, w')
    \<longleftrightarrow> mt \<noteq> MPD_value E \<and> mt \<noteq> BTS_value E \<and> mt \<noteq> VIDEO_value E \<and> w' = w"
  proof
    assume "stream_manifest_parse E manifest mt w = (Inl UnknownManifestFormat, w')"
    from stream_manifest_parse_error [OF this]
    show "mt \<noteq> MPD_value E \<and> mt \<noteq> BTS_value E \<and> mt \<noteq> VIDEO_value E \<and> w' = w"
      by (simp add: classification_def)
  next
    assume "mt \<noteq> MPD_value E \<and> mt \<noteq> BTS_value E \<and> mt \<noteq> VIDEO_value E \<and> w' = w"
    then show "stream_manifest_parse E manifest mt w = (Inl UnknownManifestFormat, w')"
      by (simp add: stream_manifest_parse_def)
  qed
next
  show "item fuel E skip_existing path_base file_template m media_id mtype video_download w =
      Some (Inl UnknownManifestFormat, w')
    \<longleftrightarrow> video_download \<and>
        (\<exists>h manifest' mt'. resolve m media_id mtype = Inr h \<and>
           fetch_manifest E h w = (Inr (manifest', mt'), w') \<and>
           mt' \<noteq> MPD_value E \<and> mt' \<noteq> BTS_value E \<and> mt' \<noteq> VIDEO_value E)"
  proof
    assume a: "item fuel E skip_existing path_base file_template m media_id mtype video_download w =
      Some (Inl UnknownManifestFormat, w')"
    have "classification UnknownManifestFormat" by (simp add: classification_def)
    from item_classification_error [OF a this]
    show "video_download \<and>
        (\<exists>h manifest' mt'. resolve m media_id mtype = Inr h \<and>
           fetch_manifest E h w = (Inr (manifest', mt'), w') \<and>
           mt' \<noteq> MPD_value E \<and> mt' \<noteq> BTS_value E \<and> mt' \<noteq> VIDEO_value E)"
      by (auto simp: resolve_error)
  next
    assume "video_download \<and>
        (\<exists>h manifest' mt'. resolve m media_id mtype = Inr h \<and>
           fetch_manifest E h w = (Inr (manifest', mt'), w') \<and>
           mt' \<noteq> MPD_value E \<and> mt' \<noteq> BTS_value E \<and> mt' \<noteq> VIDEO_value E)"
    then show "item fuel E skip_existing path_base file_template m media_id mtype video_download w =
      Some (Inl UnknownManifestFormat, w')"
      by (auto simp: item_def stream_manifest_parse_def)
  qed
qed

theorem classification_errors_witness:
  "item 0 example_env Disabled ''/music'' ''t'' None None None True (example_world []) =
     Some (Inl MediaMissing, example_world []) \<and>
   item 0 example_env Disabled ''/music'' ''t'' None (Some ''7'') (Some (OTHER ''artist'')) True
     (example_world []) = Some (Inl MediaUnknown, example_world []) \<and>
   instantiate_media (OTHER ''artist'') ''7'' = Inl MediaUnknown \<and>
   stream_manifest_parse example_env ''x'' ''text/plain'' (example_world []) =
     (Inl UnknownManifestFormat, example_world [])"
  using classification_errors [where fuel = 0 and E = example_env and skip_existing = Disabled
      and path_base = "''/music''" and file_template = "''t''" and m = None
      and media_id = None and mtype = None and video_download = True
      and w = "example_world []" and w' = "example_world []" and t = "OTHER ''artist''"
      and i = "''7''" and e = MediaUnknown and manifest = "''x''" and mt = "''text/plain''"]
    classification_errors [where fuel = 0 and E = example_env and skip_existing = Disabled
      and path_base = "''/music''" and file_template = "''t''" and m = None
      and media_id = "Some ''7''" and mtype = "Some (OTHER ''artist'')"
      and video_download = True
      and w = "example_world []" and w' = "example_world []" and t = "OTHER ''artist''"
      and i = "''7''" and e = MediaUnknown and manifest = "''x''" and mt = "''text/plain''"]
  by (simp add: pair_supplied_def recognized_def example_env_def)

section \<open>The video switch\<close>

text \<open>
  Claim C10. With \<open>video_download\<close> false, the single-item operation returns
  \<open>(False, "")\<close> for every media handle it resolved, a track as well as a video; it
  sends no request, touches no file and starts no progress task, and only hands one
  entry to the logger.
\<close>

theorem video_download_off_returns_early:
  assumes "resolve m media_id mtype = Inr h"
  shows "\<exists>w'. item fuel E skip_existing path_base file_template m media_id mtype False w =
                 Some (Inr (False, []), w') \<and>
              reqs w' = reqs w \<and> fs w' = fs w \<and> tasks w' = tasks w \<and>
              logs w' = logs w @ [Video_skipped h]"
  using assms by (simp add: item_def)

theorem video_download_off_returns_early_witness:
  "resolve (Some (Track ''1'')) None None = Inr (Track ''1'') \<and>
   (\<exists>w'. item 0 example_env Disabled ''/music'' ''t'' (Some (Track ''1'')) None None False
            (example_world []) = Some (Inr (False, []), w') \<and>
          reqs w' = [] \<and> fs w' = [] \<and> tasks w' = [] \<and>
          logs w' = [Video_skipped (Track ''1'')])"
proof -
  have h: "resolve (Some (Track ''1'')) None None = Inr (Track ''1'')"
    by (simp add: resolve_def)
  from video_download_off_returns_early [OF h, of 0 example_env Disabled "''/music''" "''t''"
      "example_world []"]
  show ?thesis using h by (simp add: example_world_def)
qed


section \<open>Playlists: media playlists and variant selection\<close>

text \<open>
  Claim C9. For a direct media playlist, one that is not a multivariant playlist,
  \<open>_extract_video_stream\<close> returns \<open>False\<close> and the read of its \<open>files\<close> raises
  \<open>AttributeError\<close>: parsing does not succeed, and no manifest with the segment files
  of the playlist is produced.
\<close>

theorem media_playlist_attribute_error:
  "m3u8_fetch example_env ''media.m3u8'' = Inr (example_media_playlist [''seg0.ts'', ''seg1.ts'']) \<and>
   stream_manifest_parse example_env ''media.m3u8'' (VIDEO_value example_env) (example_world []) =
     (Inl AttributeError,
      \<lparr>reqs = [Playlist_load ''media.m3u8''], fs = [], logs = [], tasks = []\<rparr>)"
  by code_simp






















section \<open>Skipping an existing file\<close>

lemma extract_loop_world:
  "extract_loop E q ps acc w = (res, w') \<Longrightarrow>
     \<exists>ls. w' = w\<lparr>reqs := reqs w @ map Playlist_load ls\<rparr>"
proof (induction E q ps acc w rule: extract_loop.induct)
  case (1 E quality acc w)
  then have "w' = w\<lparr>reqs := reqs w @ map Playlist_load []\<rparr>" by simp
  then show ?case by blast
next
  case (2 E quality playlist rest m3u8_playlist resolution_best mt w)
  let ?w1 = "w\<lparr>reqs := reqs w @ [Playlist_load (uri playlist)]\<rparr>"
  show ?case
  proof (cases "resolution (stream_info playlist)")
    case None
    with 2(3) have "w' = w\<lparr>reqs := reqs w @ map Playlist_load []\<rparr>" by simp
    then show ?thesis by blast
  next
    case (Some wh)
    obtain width h where wh: "wh = (width, h)" by (cases wh)
    show ?thesis
    proof (cases "resolution_best < h")
      case False
      with Some wh 2(3) have "extract_loop E quality rest (m3u8_playlist, resolution_best, mt) w = (res, w')"
        by simp
      from 2(2) [OF Some wh [symmetric] False this] show ?thesis .
    next
      case True
      show ?thesis
      proof (cases "lift (m3u8_fetch E (uri playlist))")
        case (Inl e)
        with Some wh True 2(3) have "w' = w\<lparr>reqs := reqs w @ map Playlist_load [uri playlist]\<rparr>"
          by (simp add: m3u8_load_def)
        then show ?thesis by blast
      next
        case (Inr l)
        then have ml: "m3u8_load E (uri playlist) w = (Inr l, ?w1)" by (simp add: m3u8_load_def)
        show ?thesis
        proof (cases "quality = h")
          case eq: True
          with Some wh True ml 2(3) have "w' = w\<lparr>reqs := reqs w @ map Playlist_load [uri playlist]\<rparr>"
            by simp
          then show ?thesis by blast
        next
          case ne: False
          with Some wh True ml 2(3)
          have "extract_loop E quality rest (Some l, h, si_codecs (stream_info playlist)) ?w1 = (res, w')"
            by simp
          from 2(1) [OF Some wh [symmetric] True ml [symmetric] refl ne this]
          obtain ls where "w' = ?w1\<lparr>reqs := reqs ?w1 @ map Playlist_load ls\<rparr>" by blast
          then have "w' = w\<lparr>reqs := reqs w @ map Playlist_load (uri playlist # ls)\<rparr>" by simp
          then show ?thesis by blast
        qed
      qed
    qed
  qed
qed


lemma extract_video_stream_world:
  assumes "extract_video_stream E v q w = (res, w')"
  shows "\<exists>ls. w' = w\<lparr>reqs := reqs w @ map Playlist_load ls\<rparr>"
proof (cases "is_variant v")
  case False
  with assms have "w' = w\<lparr>reqs := reqs w @ map Playlist_load []\<rparr>"
    by (simp add: extract_video_stream_def)
  then show ?thesis by blast
next
  case True
  obtain r1 w1 where run: "extract_loop E q (playlists v) (None, 0, []) w = (r1, w1)"
    by (cases "extract_loop E q (playlists v) (None, 0, []) w")
  with True assms have "w' = w1"
    by (auto simp: extract_video_stream_def split: sum.splits prod.splits)
  with extract_loop_world [OF run] show ?thesis by simp
qed

lemma video_fields_world:
  assumes "video_fields E manifest mt w = (res, w')"
  shows "\<exists>ls. w' = w\<lparr>reqs := reqs w @ map Playlist_load ls\<rparr>"
proof -
  let ?w1 = "w\<lparr>reqs := reqs w @ [Playlist_load manifest]\<rparr>"
  show ?thesis
  proof (cases "lift (m3u8_fetch E manifest)")
    case (Inl e)
    with assms have "w' = w\<lparr>reqs := reqs w @ map Playlist_load [manifest]\<rparr>"
      by (simp add: video_fields_def m3u8_load_def)
    then show ?thesis by blast
  next
    case (Inr v)
    obtain r2 w2 where x: "extract_video_stream E v (quality_video E) ?w1 = (r2, w2)"
      by (cases "extract_video_stream E v (quality_video E) ?w1")
    with Inr assms have "w' = w2"
      by (auto simp: video_fields_def m3u8_load_def split: sum.splits prod.splits option.splits)
    moreover from extract_video_stream_world [OF x]
    obtain ls where "w2 = ?w1\<lparr>reqs := reqs ?w1 @ map Playlist_load ls\<rparr>" by blast
    ultimately have "w' = w\<lparr>reqs := reqs w @ map Playlist_load (manifest # ls)\<rparr>" by simp
    then show ?thesis by blast
  qed
qed

lemma stream_manifest_parse_world:
  assumes "stream_manifest_parse E manifest mt w = (res, w')"
  shows "\<exists>ls. w' = w\<lparr>reqs := reqs w @ map Playlist_load ls\<rparr>"
proof (cases "mt \<noteq> MPD_value E \<and> mt \<noteq> BTS_value E \<and> mt = VIDEO_value E")
  case True
  obtain r1 w1 where v: "video_fields E manifest mt w = (r1, w1)"
    by (cases "video_fields E manifest mt w")
  with True assms have "w' = w1"
    by (auto simp: stream_manifest_parse_def split: sum.splits)
  with video_fields_world [OF v] show ?thesis by simp
next
  case False
  with assms have "w' = w"
    by (auto simp: stream_manifest_parse_def split: if_splits sum.splits)
  then have "w' = w\<lparr>reqs := reqs w @ map Playlist_load []\<rparr>" by simp
  then show ?thesis by blast
qed

lemma filter_http_get_playlist_loads:
  "filter is_http_get (map Playlist_load ls) = []"
  by (induction ls) (simp_all add: is_http_get_def)

text \<open>
  Claim C3, as stated, fails: with the skip policy enabled and a file at the computed
  path, the operation returns \<open>(False, path)\<close> but has sent a request, the one that
  fetches the manifest.
\<close>

theorem skip_existing_fetches_manifest:
  "skip_value Filename \<and>
   check_file_exists example_env [(''/music/t.mp4'', ''old'')] ''/music/t.mp4'' False \<and>
   item 0 example_env Filename ''/music'' ''t'' (Some (Track ''1'')) None None True
     (example_world [(''/music/t.mp4'', ''old'')]) =
     Some (Inr (False, ''/music/t.mp4''),
           \<lparr>reqs = [Manifest_fetch (Track ''1'')], fs = [(''/music/t.mp4'', ''old'')],
            logs = [Download_skipped ''/music/t.mp4''], tasks = []\<rparr>)"
  by code_simp

text \<open>
  Claim C3, amended. The computed path ends in the extension that the manifest gives, so
  the manifest is fetched and parsed first. When the skip policy is enabled and a file
  exists at the computed path, the operation returns \<open>(False, path)\<close>; the requests it
  has sent are the manifest fetch and the playlist loads of parsing, none of them a
  content request; no file is written and no progress task is started.
\<close>

theorem skip_existing_no_content_fetch:
  assumes "resolve m media_id mtype = Inr h"
    and "fetch_manifest E h w = (Inr (manifest, mt), w1)"
    and "stream_manifest_parse E manifest mt w1 = (Inr sm, w2)"
    and "path_file = path_file_sanitize E
           (abspath_join E path_base (format_path_media E file_template h) @ file_extension sm)"
    and "skip_value skip_existing"
    and "check_file_exists E (fs w) path_file (skip_existing = ExtensionIgnore)"
  shows "\<exists>w' ls.
           item fuel E skip_existing path_base file_template m media_id mtype True w =
             Some (Inr (False, path_file), w') \<and>
           reqs w' = reqs w @ Manifest_fetch h # map Playlist_load ls \<and>
           filter is_http_get (reqs w') = filter is_http_get (reqs w) \<and>
           fs w' = fs w \<and> tasks w' = tasks w \<and>
           logs w' = logs w @ [Download_skipped path_file]"
proof -
  from assms(2) have w1: "w1 = w\<lparr>reqs := reqs w @ [Manifest_fetch h]\<rparr>"
    by (simp add: fetch_manifest_def)
  from stream_manifest_parse_world [OF assms(3)]
  obtain ls where w2: "w2 = w1\<lparr>reqs := reqs w1 @ map Playlist_load ls\<rparr>" by blast
  have fs2: "fs w2 = fs w" using w1 w2 by simp
  let ?w' = "w2\<lparr>logs := logs w2 @ [Download_skipped path_file]\<rparr>"
  have run: "item fuel E skip_existing path_base file_template m media_id mtype True w =
             Some (Inr (False, path_file), ?w')"
    using assms fs2 by (simp add: item_def Let_def)
  have "reqs ?w' = reqs w @ Manifest_fetch h # map Playlist_load ls"
    using w1 w2 by simp
  moreover have "filter is_http_get (reqs ?w') = filter is_http_get (reqs w)"
    using w1 w2 by (simp add: filter_http_get_playlist_loads is_http_get_def)
  moreover have "fs ?w' = fs w" "tasks ?w' = tasks w"
    "logs ?w' = logs w @ [Download_skipped path_file]"
    using w1 w2 by simp_all
  ultimately show ?thesis using run by blast
qed

theorem skip_existing_no_content_fetch_witness:
  "resolve (Some (Video ''9'')) None None = Inr (Video ''9'') \<and>
   skip_value ExtensionIgnore \<and>
   check_file_exists example_env [(''/music/v.mp4'', ''old'')] ''/music/v.ts'' True \<and>
   (\<exists>w' ls. item 0 example_env ExtensionIgnore ''/music'' ''v'' (Some (Video ''9'')) None None True
               (example_world [(''/music/v.mp4'', ''old'')]) =
               Some (Inr (False, ''/music/v.ts''), w') \<and>
             reqs w' = Manifest_fetch (Video ''9'') # map Playlist_load ls \<and>
             filter is_http_get (reqs w') = [] \<and>
             fs w' = [(''/music/v.mp4'', ''old'')] \<and> tasks w' = [] \<and>
             logs w' = [Download_skipped ''/music/v.ts''])"
proof -
  let ?w = "example_world [(''/music/v.mp4'', ''old'')]"
  let ?w1 = "?w\<lparr>reqs := [Manifest_fetch (Video ''9'')]\<rparr>"
  let ?w2 = "?w\<lparr>reqs := [Manifest_fetch (Video ''9''), Playlist_load ''variant.m3u8'',
                Playlist_load ''p360.m3u8'', Playlist_load ''p720.m3u8'']\<rparr>"
  let ?sm = "\<lparr>urls = [''https://cdn/v0.ts'', ''https://cdn/v1.ts''], codecs = ''avc1'', file_extension = ''.ts'',
         encryption_type = ''NONE'', encryption_key = None, mime_type = ''video/mp2t''\<rparr>"
  have a: "resolve (Some (Video ''9'')) None None = Inr (Video ''9'')"
    by (simp add: resolve_def)
  have b: "fetch_manifest example_env (Video ''9'') ?w = (Inr (''variant.m3u8'', ''video/mp2t''), ?w1)"
    by code_simp
  have c: "stream_manifest_parse example_env ''variant.m3u8'' ''video/mp2t'' ?w1 = (Inr ?sm, ?w2)"
    by code_simp
  have d: "''/music/v.ts'' = path_file_sanitize example_env
           (abspath_join example_env ''/music'' (format_path_media example_env ''v'' (Video ''9''))
              @ file_extension ?sm)"
    by (simp add: example_env_def)
  have e: "skip_value ExtensionIgnore" by (simp add: skip_value_def)
  have f: "check_file_exists example_env (fs ?w) ''/music/v.ts'' (ExtensionIgnore = ExtensionIgnore)"
    by code_simp
  from skip_existing_no_content_fetch [OF a b c d e f, of 0]
  show ?thesis using a e f by (simp add: example_world_def)
qed


section \<open>Errors during the fetch\<close>

text \<open>
  Claim C1. The track's manifest has two segments; the server answers the request for
  the second with a failure status. \<open>_download\<close> catches the \<open>HTTPError\<close>, logs it
  and returns the path of the temporary file as if it were complete, and \<open>item\<close> moves
  that file, holding the first segment only, to the destination path and returns
  \<open>(True, path)\<close>. The second run, in which the server answers both requests, leaves
  both segments there. The third run is a video of two segments, which no tagger
  touches: again the first segment alone ends at the destination.
\<close>

theorem http_error_promotes_partial_file:
  "urls example_track_manifest = [''https://cdn/0.mp4'', ''https://cdn/1.mp4''] \<and>
   item 5 example_env Disabled ''/music'' ''t'' (Some (Track ''1'')) None None True
     (example_world []) =
     Some (Inr (True, ''/music/t.mp4''),
           \<lparr>reqs = [Manifest_fetch (Track ''1''), Http_get ''https://cdn/0.mp4'',
                    Http_get ''https://cdn/1.mp4''],
            fs = [(''/music/t.mp4'', ''DATA'')],
            logs = [Exception_logged HTTPError],
            tasks = [\<lparr>total = 2, completed = 1, finished = False\<rparr>]\<rparr>) \<and>
   item 5 example_env Disabled ''/music'' ''t'' (Some (Track ''1'')) None None True
     ((example_world [])\<lparr>reqs := [Manifest_fetch (Track ''0''), Http_get ''https://cdn/0.mp4'']\<rparr>) =
     Some (Inr (True, ''/music/t.mp4''),
           \<lparr>reqs = [Manifest_fetch (Track ''0''), Http_get ''https://cdn/0.mp4'',
                    Manifest_fetch (Track ''1''), Http_get ''https://cdn/0.mp4'',
                    Http_get ''https://cdn/1.mp4''],
            fs = [(''/music/t.mp4'', ''DATADATA'')],
            logs = [],
            tasks = [\<lparr>total = 2, completed = 2, finished = True\<rparr>]\<rparr>) \<and>
   item 5 example_env Disabled ''/music'' ''v'' (Some (Video ''9'')) None None True
     (example_world []) =
     Some (Inr (True, ''/music/v.ts''),
           \<lparr>reqs = [Manifest_fetch (Video ''9''), Playlist_load ''variant.m3u8'',
                    Playlist_load ''p360.m3u8'', Playlist_load ''p720.m3u8'',
                    Http_get ''https://cdn/v0.ts'', Http_get ''https://cdn/v1.ts''],
            fs = [(''/music/v.ts'', ''DATA'')],
            logs = [Exception_logged HTTPError],
            tasks = [\<lparr>total = 2, completed = 1, finished = False\<rparr>]\<rparr>)"
  by code_simp

text \<open>
  Claim C2, as stated, fails. After the failure status on the second segment the error
  is logged, but no request follows, although the task is unfinished, passes are left
  and the server would answer the next request for that segment with the data. And a
  request that times out is not logged at all: the exception leaves \<open>_download\<close>.
\<close>

theorem transport_error_not_retried:
  "download 5 example_env (Track ''1'') example_track_manifest ''/tmp/d/u.mp4'' (example_world []) =
     Some (Inr ''/tmp/d/u.mp4'',
           \<lparr>reqs = [Http_get ''https://cdn/0.mp4'', Http_get ''https://cdn/1.mp4''],
            fs = [(''/tmp/d/u.mp4'', ''DATA'')],
            logs = [Exception_logged HTTPError],
            tasks = [\<lparr>total = 2, completed = 1, finished = False\<rparr>]\<rparr>) \<and>
   http example_env 3 ''https://cdn/1.mp4'' =
     Inr \<lparr>status_ok = True, content_length = Some 4, chunks = [''DATA''], broken = False\<rparr> \<and>
   download 5 example_env (Track ''1'') example_slow_manifest ''/tmp/d/u.flac'' (example_world []) =
     Some (Inl (External ''ReadTimeout''),
           \<lparr>reqs = [Http_get ''https://cdn/a.flac'', Http_get ''https://cdn/slow.flac''],
            fs = [(''/tmp/d/u.flac'', ''DATA'')],
            logs = [],
            tasks = [\<lparr>total = 2, completed = 1, finished = False\<rparr>]\<rparr>)"
  by code_simp

lemma write_chunks_reqs [simp]: "reqs (write_chunks p path cs w) = reqs w"
  by (induction cs arbitrary: w) (simp_all add: advance_def f_write_def)

lemma write_chunks_logs [simp]: "logs (write_chunks p path cs w) = logs w"
  by (induction cs arbitrary: w) (simp_all add: advance_def f_write_def)

lemma requests_get_failed:
  assumes "requests_get E u w = (Inr resp, w1)" and "\<not> status_ok resp"
  shows "ends_with_failed_request E w1"
  using assms
  by (auto simp: requests_get_def lift_def ends_with_failed_request_def split: sum.splits)

lemma requests_get_logs: "requests_get E u w = (res, w1) \<Longrightarrow> logs w1 = logs w"
  by (auto simp: requests_get_def)

lemma requests_get_not_http_error: "requests_get E u w = (Inl e, w1) \<Longrightarrow> e \<noteq> HTTPError"
  by (auto simp: requests_get_def lift_def split: sum.splits)

lemma fetch_urls_logs: "fetch_urls E p path us w = (res, w') \<Longrightarrow> logs w' = logs w"
proof (induction us arbitrary: w)
  case Nil
  then show ?case by simp
next
  case (Cons u us)
  obtain r1 w1 where g: "requests_get E u w = (r1, w1)" by (cases "requests_get E u w")
  from requests_get_logs [OF g] have l1: "logs w1 = logs w" .
  show ?case
  proof (cases r1)
    case (Inl e)
    with g Cons.prems l1 show ?thesis by simp
  next
    case (Inr resp)
    with g Cons.prems l1 Cons.IH [of "write_chunks p path (chunks resp) w1"]
    show ?thesis by (auto simp: Let_def split: if_splits)
  qed
qed

lemma fetch_urls_http_error:
  "fetch_urls E p path us w = (Inl HTTPError, w') \<Longrightarrow> ends_with_failed_request E w'"
proof (induction us arbitrary: w)
  case Nil
  then show ?case by simp
next
  case (Cons u us)
  obtain r1 w1 where g: "requests_get E u w = (r1, w1)" by (cases "requests_get E u w")
  show ?case
  proof (cases r1)
    case (Inl e)
    with g Cons.prems requests_get_not_http_error [of E u w e w1] show ?thesis by simp
  next
    case (Inr resp)
    show ?thesis
    proof (cases "status_ok resp")
      case False
      with g Inr Cons.prems have "w' = w1" by simp
      with requests_get_failed [OF g [unfolded Inr] False] show ?thesis by simp
    next
      case True
      with g Inr Cons.prems Cons.IH [of "write_chunks p path (chunks resp) w1"]
      show ?thesis by (auto simp: Let_def split: if_splits)
    qed
  qed
qed

lemma write_loop_logs:
  "write_loop fuel E p path us w = Some (res, w') \<Longrightarrow> logs w' = logs w"
proof (induction fuel arbitrary: w)
  case 0
  then show ?case by (simp split: if_splits)
next
  case (Suc fuel)
  show ?case
  proof (cases "task_finished p w")
    case True
    with Suc.prems show ?thesis by simp
  next
    case False
    obtain r1 w1 where f: "fetch_urls E p path us (open_wb path w) = (r1, w1)"
      by (cases "fetch_urls E p path us (open_wb path w)")
    from fetch_urls_logs [OF f] have l1: "logs w1 = logs w" by (simp add: open_wb_def)
    from False f Suc.prems Suc.IH [of w1] l1 show ?thesis
      by (cases r1) auto
  qed
qed

lemma write_loop_http_error:
  "write_loop fuel E p path us w = Some (Inl HTTPError, w') \<Longrightarrow> ends_with_failed_request E w'"
proof (induction fuel arbitrary: w)
  case 0
  then show ?case by (simp split: if_splits)
next
  case (Suc fuel)
  show ?case
  proof (cases "task_finished p w")
    case True
    with Suc.prems show ?thesis by simp
  next
    case False
    obtain r1 w1 where f: "fetch_urls E p path us (open_wb path w) = (r1, w1)"
      by (cases "fetch_urls E p path us (open_wb path w)")
    show ?thesis
    proof (cases r1)
      case (Inl e)
      with False f Suc.prems have "e = HTTPError" "w' = w1" by simp_all
      with f Inl fetch_urls_http_error show ?thesis by blast
    next
      case (Inr u)
      with False f Suc.prems Suc.IH [of w1] show ?thesis by simp
    qed
  qed
qed

lemma try_body_logs:
  assumes "try_body fuel E sm path w = Some (res, w1)"
  shows "logs w1 = logs w"
proof (cases "length (urls sm) > 1")
  case True
  with assms have "write_loop fuel E (length (tasks w)) path (urls sm)
      (w\<lparr>tasks := tasks w @ [\<lparr>total = of_nat (length (urls sm)), completed = 0, finished = False\<rparr>]\<rparr>)
      = Some (res, w1)"
    by (simp add: try_body_def add_task_def)
  from write_loop_logs [OF this] show ?thesis by simp
next
  case False
  show ?thesis
  proof (cases "first (urls sm)")
    case (Inl e)
    with False assms show ?thesis by (simp add: try_body_def)
  next
    case (Inr url0)
    obtain r1 w0 where g: "requests_get E url0 w = (r1, w0)" by (cases "requests_get E url0 w")
    from requests_get_logs [OF g] have l0: "logs w0 = logs w" .
    show ?thesis
    proof (cases r1)
      case e: (Inl e)
      with False Inr g assms l0 show ?thesis by (simp add: try_body_def)
    next
      case resp: (Inr resp)
      show ?thesis
      proof (cases "status_ok resp")
        case no: False
        with False Inr g resp assms l0 show ?thesis by (simp add: try_body_def)
      next
        case ok: True
        with False Inr g resp assms
        obtain t where "write_loop fuel E (length (tasks w0)) path (urls sm)
            (w0\<lparr>tasks := tasks w0 @ [\<lparr>total = t, completed = 0, finished = False\<rparr>]\<rparr>) = Some (res, w1)"
          by (auto simp: try_body_def add_task_def Let_def)
        from write_loop_logs [OF this] l0 show ?thesis by simp
      qed
    qed
  qed
qed

lemma try_body_http_error:
  assumes "try_body fuel E sm path w = Some (Inl HTTPError, w1)"
  shows "ends_with_failed_request E w1"
proof (cases "length (urls sm) > 1")
  case True
  with assms have "write_loop fuel E (length (tasks w)) path (urls sm)
      (w\<lparr>tasks := tasks w @ [\<lparr>total = of_nat (length (urls sm)), completed = 0, finished = False\<rparr>]\<rparr>)
      = Some (Inl HTTPError, w1)"
    by (simp add: try_body_def add_task_def)
  from write_loop_http_error [OF this] show ?thesis .
next
  case False
  show ?thesis
  proof (cases "first (urls sm)")
    case (Inl e)
    with False assms show ?thesis by (auto simp: try_body_def first_def split: list.splits)
  next
    case (Inr url0)
    obtain r1 w0 where g: "requests_get E url0 w = (r1, w0)" by (cases "requests_get E url0 w")
    show ?thesis
    proof (cases r1)
      case e: (Inl e)
      with False Inr g assms requests_get_not_http_error [of E url0 w e w0] show ?thesis
        by (simp add: try_body_def)
    next
      case resp: (Inr resp)
      show ?thesis
      proof (cases "status_ok resp")
        case no: False
        with False Inr g resp assms have "w1 = w0" by (simp add: try_body_def)
        with requests_get_failed [OF g [unfolded resp] no] show ?thesis by simp
      next
        case ok: True
        with False Inr g resp assms
        obtain t where "write_loop fuel E (length (tasks w0)) path (urls sm)
            (w0\<lparr>tasks := tasks w0 @ [\<lparr>total = t, completed = 0, finished = False\<rparr>]\<rparr>)
              = Some (Inl HTTPError, w1)"
          by (auto simp: try_body_def add_task_def Let_def)
        from write_loop_http_error [OF this] show ?thesis .
      qed
    qed
  qed
qed

lemma after_try_effects:
  assumes "after_try E m sm path w = (res, w')"
  shows "filter is_http_get (reqs w') = filter is_http_get (reqs w) \<and> logs w' = logs w"
  using assms
  by (auto simp: after_try_def metadata_write_def Let_def is_http_get_def
           split: if_splits sum.splits prod.splits)

text \<open>
  Claim C2, amended. Nothing in the \<open>try\<close> statement logs. An \<open>HTTPError\<close> raised
  in it ends the write loop for good: the failing request is the last one sent,
  \<open>_download\<close> hands the error to the logger once, and no content request is sent
  afterwards. Any other exception leaves \<open>_download\<close> unlogged. Inside the loop, a
  pass that raises ends the loop with that exception; the fetch is repeated from the
  start, the file opened anew in truncate mode, only after a pass that ended without
  an exception when the task was not finished.
\<close>

theorem http_error_ends_write_loop:
  assumes "try_body fuel E sm path w = Some (Inl e, w1)"
  shows "logs w1 = logs w \<and>
         (e = HTTPError \<longrightarrow>
            ends_with_failed_request E w1 \<and>
            (\<exists>res w2. download fuel E m sm path w = Some (res, w2) \<and>
                    filter is_http_get (reqs w2) = filter is_http_get (reqs w1) \<and>
                    logs w2 = logs w @ [Exception_logged HTTPError])) \<and>
         (e \<noteq> HTTPError \<longrightarrow> download fuel E m sm path w = Some (Inl e, w1)) \<and>
         (\<not> task_finished p w0 \<longrightarrow>
            write_loop (Suc n) E p path0 us w0 =
              (case fetch_urls E p path0 us (open_wb path0 w0) of
                 (Inl e', w0') \<Rightarrow> Some (Inl e', w0')
               | (Inr u, w0') \<Rightarrow> write_loop n E p path0 us w0'))"
proof (intro conjI impI)
  show l: "logs w1 = logs w" using assms by (rule try_body_logs)
  show "download fuel E m sm path w = Some (Inl e, w1)" if "e \<noteq> HTTPError"
    using assms that by (cases e) (simp_all add: download_def)
  show "ends_with_failed_request E w1" if "e = HTTPError"
    using assms that try_body_http_error by blast
  show "\<exists>res w2. download fuel E m sm path w = Some (res, w2) \<and>
                    filter is_http_get (reqs w2) = filter is_http_get (reqs w1) \<and>
                    logs w2 = logs w @ [Exception_logged HTTPError]" if "e = HTTPError"
  proof -
    let ?w = "w1\<lparr>logs := logs w1 @ [Exception_logged HTTPError]\<rparr>"
    obtain res w2 where a: "after_try E m sm path ?w = (res, w2)"
      by (cases "after_try E m sm path ?w")
    from assms that have "download fuel E m sm path w = Some (res, w2)"
      by (simp add: download_def a)
    moreover from after_try_effects [OF a] l
    have "filter is_http_get (reqs w2) = filter is_http_get (reqs w1)"
      "logs w2 = logs w @ [Exception_logged HTTPError]"
      by simp_all
    ultimately show ?thesis by blast
  qed
  show "write_loop (Suc n) E p path0 us w0 =
              (case fetch_urls E p path0 us (open_wb path0 w0) of
                 (Inl e', w0') \<Rightarrow> Some (Inl e', w0')
               | (Inr u, w0') \<Rightarrow> write_loop n E p path0 us w0')" if "\<not> task_finished p w0"
    using that by simp
qed

lemma example_try_body:
  "try_body 5 example_env example_track_manifest ''/tmp/d/u.mp4'' (example_world []) =
     Some (Inl HTTPError,
           \<lparr>reqs = [Http_get ''https://cdn/0.mp4'', Http_get ''https://cdn/1.mp4''],
            fs = [(''/tmp/d/u.mp4'', ''DATA'')], logs = [],
            tasks = [\<lparr>total = 2, completed = 1, finished = False\<rparr>]\<rparr>)"
  by code_simp

theorem http_error_ends_write_loop_witness:
  "try_body 5 example_env example_track_manifest ''/tmp/d/u.mp4'' (example_world []) =
     Some (Inl HTTPError,
           \<lparr>reqs = [Http_get ''https://cdn/0.mp4'', Http_get ''https://cdn/1.mp4''],
            fs = [(''/tmp/d/u.mp4'', ''DATA'')], logs = [],
            tasks = [\<lparr>total = 2, completed = 1, finished = False\<rparr>]\<rparr>) \<and>
   ends_with_failed_request example_env
     \<lparr>reqs = [Http_get ''https://cdn/0.mp4'', Http_get ''https://cdn/1.mp4''],
      fs = [(''/tmp/d/u.mp4'', ''DATA'')], logs = [],
      tasks = [\<lparr>total = 2, completed = 1, finished = False\<rparr>]\<rparr> \<and>
   (\<exists>res w2. download 5 example_env (Track ''1'') example_track_manifest ''/tmp/d/u.mp4''
               (example_world []) = Some (res, w2) \<and>
             filter is_http_get (reqs w2) =
               [Http_get ''https://cdn/0.mp4'', Http_get ''https://cdn/1.mp4''] \<and>
             logs w2 = [Exception_logged HTTPError])"
  using http_error_ends_write_loop [OF example_try_body, of "Track ''1''"] example_try_body
  by (simp add: example_world_def is_http_get_def)


end
